theory Spec2Isabelle
  imports Complex_Main "HOL-Library.AList" "HOL-Library.Sublist"
begin

section \<open>Data model of the recommender (backend/recommender.py)\<close>

text \<open>
  Python floats are modelled as exact reals, Python ints as \<open>int\<close>, dicts as association
  lists in insertion order (\<open>AList.update\<close> replaces a key in place or appends a new key
  at the end, as a Python dict does; \<open>AList.delete\<close> is \<open>del d[k]\<close>), and timestamps as
  integer microseconds. Identifiers (\<open>user_id\<close>, \<open>assessment_id\<close>) arrive from JSON and
  may be absent, a string or an integer.
\<close>

datatype py_val = PyNone | PyInt int | PyStr string

text \<open>Python truthiness of an identifier: \<open>not x\<close> holds for \<open>None\<close>, \<open>''\<close> and \<open>0\<close>.\<close>

fun truthy :: "py_val \<Rightarrow> bool" where
  "truthy PyNone = False"
| "truthy (PyInt n) = (n \<noteq> 0)"
| "truthy (PyStr s) = (s \<noteq> [])"

datatype exn = ValueError string | DatabaseError

datatype db_status = DbOk | DbConnectFails | DbExecuteFails

record assessment =
  a_id :: py_val
  a_name :: string
  a_category :: string
  a_description :: string
  a_roles :: "string list"
  a_levels :: "string list"
  a_industries :: "string list"
  a_goals :: "string list"
  a_key_features :: "string list"
  a_benefits :: "string list"

record user_data =
  items :: "(py_val \<times> real) list"
  last_activity :: int

record user_profile =
  first_seen :: int
  last_seen :: int

record feedback_item =
  fb_user_id :: py_val
  fb_assessment_id :: py_val
  fb_rating :: int
  fb_timestamp :: int

record metrics_rec =
  total_recommendations :: int
  total_feedback :: int
  avg_rating :: real
  model_updates :: int

record learn_ctx =
  features :: "(string \<times> real) list option"
  predicted_score :: "real option"

text \<open>
  \<open>Config\<close> and the catalog \<open>ASSESSMENTS\<close> of backend/config.py. The configuration values
  are read from the environment, so they are parameters here.
\<close>

record config =
  assessments :: "assessment list"
  max_feedback :: int
  user_ttl_days :: int
  learning_rate :: real

text \<open>
  What a call reads from outside the recommender: the three clock reads of
  \<open>record_interaction\<close> (\<open>last_activity\<close>, the feedback timestamp, the cut-off of the
  clean-up pass), whether the SQLite insert of \<open>save_feedback\<close> succeeds, the iteration
  order of a Python \<open>set\<close>, and scikit-learn's \<open>cosine_similarity\<close> (its square result
  is read at row \<open>i\<close>, column \<open>j\<close>).
\<close>

record env =
  t_activity :: int
  t_feedback :: int
  t_cleanup :: int
  db :: db_status
  set_order :: "py_val list \<Rightarrow> py_val list"
  cosine_similarity :: "real list list \<Rightarrow> nat \<Rightarrow> nat \<Rightarrow> real"

text \<open>
  The mutable attributes of \<open>AssessmentRecommender\<close>, the rows of the \<open>feedback\<close> table
  and the lines written at level ERROR.
\<close>

record state =
  user_interactions :: "(py_val \<times> user_data) list"
  user_profiles :: "(py_val \<times> user_profile) list"
  item_similarities :: "(py_val \<times> (py_val \<times> real) list) list"
  feature_weights :: "(string \<times> real) list"
  feedback_data :: "feedback_item list"
  popular_items :: "py_val list"
  metrics :: metrics_rec
  db_feedback :: "feedback_item list"
  error_log :: "string list"

section \<open>Python helpers\<close>

definition dict_get :: "('k \<times> 'v) list \<Rightarrow> 'k \<Rightarrow> 'v \<Rightarrow> 'v" where
  "dict_get d k dflt = (case map_of d k of Some v \<Rightarrow> v | None \<Rightarrow> dflt)"

text \<open>\<open>d[k] += x\<close> on a \<open>defaultdict(float)\<close>.\<close>

definition dict_add :: "('k \<times> real) list \<Rightarrow> 'k \<Rightarrow> real \<Rightarrow> ('k \<times> real) list" where
  "dict_add d k x = AList.update k (dict_get d k 0 + x) d"

text \<open>The slices \<open>xs[i:]\<close> and \<open>xs[:k]\<close>; a negative bound counts from the end.\<close>

definition py_slice_from :: "int \<Rightarrow> 'a list \<Rightarrow> 'a list" where
  "py_slice_from i xs =
     (if i < 0 then drop (length xs - nat (- i)) xs else drop (nat i) xs)"

definition py_slice_to :: "int \<Rightarrow> 'a list \<Rightarrow> 'a list" where
  "py_slice_to k xs =
     (if k < 0 then take (length xs - nat (- k)) xs else take (nat k) xs)"

text \<open>
  \<open>xs.sort(key=f, reverse=True)\<close> and \<open>sorted(xs, key=f, reverse=True)\<close>: descending
  and stable (elements with equal keys keep their order).
\<close>

definition sort_desc :: "('a \<Rightarrow> real) \<Rightarrow> 'a list \<Rightarrow> 'a list" where
  "sort_desc f xs = sort_key (\<lambda>x. - f x) xs"

definition mean :: "real list \<Rightarrow> real" where
  "mean xs = sum_list xs / real (length xs)"

section \<open>The derived caches\<close>

text \<open>\<open>_cleanup_old_data\<close> (lines 185-201).\<close>

definition old_users :: "config \<Rightarrow> env \<Rightarrow> (py_val \<times> user_data) list \<Rightarrow> py_val list" where
  "old_users cfg e ui =
     map fst (filter (\<lambda>(uid, d). last_activity d < t_cleanup e - user_ttl_days cfg * 86400000000) ui)"

definition cleanup_old_data :: "config \<Rightarrow> env \<Rightarrow> state \<Rightarrow> state" where
  "cleanup_old_data cfg e s =
     s\<lparr>user_interactions :=
         fold AList.delete (old_users cfg e (user_interactions s)) (user_interactions s),
       user_profiles :=
         fold AList.delete (old_users cfg e (user_interactions s)) (user_profiles s),
       feedback_data :=
         (if int (length (feedback_data s)) > max_feedback cfg
          then py_slice_from (- max_feedback cfg) (feedback_data s)
          else feedback_data s)\<rparr>"

text \<open>\<open>_update_popular_items\<close> (lines 203-222).\<close>

definition interaction_scores :: "(py_val \<times> user_data) list \<Rightarrow> (py_val \<times> real) list" where
  "interaction_scores ui =
     fold (\<lambda>(uid, d) sc. fold (\<lambda>(item, score) sc'. dict_add sc' item score) (items d) sc) ui []"

definition popular_ranking :: "config \<Rightarrow> state \<Rightarrow> py_val list" where
  "popular_ranking cfg s =
     (let scores = fold (\<lambda>fb sc. dict_add sc (fb_assessment_id fb) (real_of_int (fb_rating fb) / 5))
                     (feedback_data s) (interaction_scores (user_interactions s));
          sorted_items = sort_desc snd scores;
          popular = map fst (take 10 sorted_items)
      in if popular = [] then map a_id (take 10 (assessments cfg)) else popular)"

definition update_popular_items :: "config \<Rightarrow> state \<Rightarrow> state" where
  "update_popular_items cfg s = s\<lparr>popular_items := popular_ranking cfg s\<rparr>"

text \<open>
  \<open>_compute_item_similarities\<close> (lines 224-254). \<open>neighbours\<close> is the body of the loop
  of lines 251-254 for the item at index \<open>i\<close>; \<open>similarity_cache\<close> is the value of
  \<open>self.item_similarities\<close> when the method returns (the old cache when it returns early
  or the matrix sums to zero).
\<close>

definition neighbours :: "(nat \<Rightarrow> nat \<Rightarrow> real) \<Rightarrow> py_val list \<Rightarrow> nat \<Rightarrow> (py_val \<times> real) list" where
  "neighbours sims its i =
     take 20 (sort_desc snd
       (map (\<lambda>j. (its ! j, sims i j)) (filter (\<lambda>j. i \<noteq> j) [0..<length its])))"

definition similarity_cache :: "env \<Rightarrow> state \<Rightarrow> (py_val \<times> (py_val \<times> real) list) list" where
  "similarity_cache e s =
     (let users = map fst (user_interactions s);
          its = set_order e (concat (map (\<lambda>(uid, d). map fst (items d)) (user_interactions s)))
      in if length users < 2 \<or> length its < 2 then item_similarities s
         else
           let matrix = map (\<lambda>(uid, d). map (\<lambda>it. dict_get (items d) it 0) its)
                          (user_interactions s)
           in if sum_list (map sum_list matrix) > 0
              then
                let sims = cosine_similarity e
                             (map (\<lambda>it. map (\<lambda>(uid, d). dict_get (items d) it 0 + 1 / 10 ^ 10)
                                          (user_interactions s)) its)
                in fold (\<lambda>i cache. AList.update (its ! i) (neighbours sims its i) cache)
                     [0..<length its] (item_similarities s)
              else item_similarities s)"

definition compute_item_similarities :: "env \<Rightarrow> state \<Rightarrow> state" where
  "compute_item_similarities e s = s\<lparr>item_similarities := similarity_cache e s\<rparr>"

section \<open>record_interaction\<close>

text \<open>
  \<open>DatabasePersistence.save_feedback\<close> (backend/database.py, lines 193-215, with
  \<open>get_connection\<close>, lines 94-113): the row is inserted and committed, or the exception is
  logged and raised again. A failure inside the \<open>with\<close> block is logged by
  \<open>get_connection\<close> too.
\<close>

definition save_feedback :: "env \<Rightarrow> state \<Rightarrow> feedback_item \<Rightarrow> exn option \<times> state" where
  "save_feedback e s item =
     (case db e of
        DbOk \<Rightarrow> (None, s\<lparr>db_feedback := db_feedback s @ [item]\<rparr>)
      | DbConnectFails \<Rightarrow>
          (Some DatabaseError, s\<lparr>error_log := error_log s @ [''Failed to save feedback'']\<rparr>)
      | DbExecuteFails \<Rightarrow>
          (Some DatabaseError,
           s\<lparr>error_log := error_log s @ [''Database operation failed'', ''Failed to save feedback'']\<rparr>))"

text \<open>Lines 510-513: the weight of an interaction.\<close>

definition interaction_weight :: "string \<Rightarrow> int option \<Rightarrow> real" where
  "interaction_weight interaction_type rating =
     (let w = dict_get [(''view'', 1 / 10), (''click'', 3 / 10), (''rate'', 1), (''select'', 1 / 2)]
                interaction_type (1 / 10)
      in case rating of
           None \<Rightarrow> w
         | Some r \<Rightarrow> if r \<noteq> 0 then w * (real_of_int r / 5) else w)"

text \<open>Lines 515-516: the accumulation into the (user, item) entry.\<close>

definition add_interaction :: "env \<Rightarrow> state \<Rightarrow> py_val \<Rightarrow> py_val \<Rightarrow> real \<Rightarrow> state" where
  "add_interaction e s user_id assessment_id w =
     (let d = dict_get (user_interactions s) user_id \<lparr>items = [], last_activity = t_activity e\<rparr>;
          d' = d\<lparr>items := dict_add (items d) assessment_id w, last_activity := t_activity e\<rparr>
      in s\<lparr>user_interactions := AList.update user_id d' (user_interactions s)\<rparr>)"

text \<open>Lines 532-539: the online learning step over the features of the context.\<close>

definition clamp_weight :: "real \<Rightarrow> real" where
  "clamp_weight w = max (1 / 10) (min 10 w)"

fun learn_features ::
  "real \<Rightarrow> real \<Rightarrow> (string \<times> real) list \<Rightarrow> (string \<times> real) list \<Rightarrow> (string \<times> real) list" where
  "learn_features lr err [] fw = fw"
| "learn_features lr err ((feat, val) # rest) fw =
     learn_features lr err rest
       (case map_of fw feat of
          Some w \<Rightarrow> if val \<noteq> 0 then AList.update feat (clamp_weight (w + lr * (err * val))) fw else fw
        | None \<Rightarrow> fw)"

definition online_learning :: "config \<Rightarrow> state \<Rightarrow> int \<Rightarrow> learn_ctx option \<Rightarrow> state" where
  "online_learning cfg s rating ctx =
     (case ctx of
        None \<Rightarrow> s
      | Some c \<Rightarrow>
          (case (features c, predicted_score c) of
             (Some fs, Some p) \<Rightarrow>
               s\<lparr>feature_weights :=
                    learn_features (learning_rate cfg) (real_of_int rating / 5 - p / 20) fs
                      (feature_weights s),
                  metrics := (metrics s)\<lparr>model_updates := model_updates (metrics s) + 1\<rparr>\<rparr>
           | _ \<Rightarrow> s))"

text \<open>Lines 518-539: the feedback branch, taken when the rating is truthy.\<close>

definition new_feedback :: "env \<Rightarrow> py_val \<Rightarrow> py_val \<Rightarrow> int \<Rightarrow> feedback_item" where
  "new_feedback e user_id assessment_id rating =
     \<lparr>fb_user_id = user_id, fb_assessment_id = assessment_id, fb_rating = rating,
      fb_timestamp = t_feedback e\<rparr>"

definition record_feedback ::
  "config \<Rightarrow> env \<Rightarrow> state \<Rightarrow> py_val \<Rightarrow> py_val \<Rightarrow> int \<Rightarrow> learn_ctx option \<Rightarrow> exn option \<times> state" where
  "record_feedback cfg e s user_id assessment_id rating ctx =
     (let feedback = new_feedback e user_id assessment_id rating;
          s1 = s\<lparr>feedback_data := feedback_data s @ [feedback]\<rparr>
      in case save_feedback e s1 feedback of
           (Some ex, s2) \<Rightarrow> (Some ex, s2)
         | (None, s2) \<Rightarrow>
             (let s3 = s2\<lparr>metrics := (metrics s2)
                        \<lparr>total_feedback := total_feedback (metrics s2) + 1,
                         avg_rating := mean (map (\<lambda>f. real_of_int (fb_rating f)) (feedback_data s2))\<rparr>\<rparr>
              in (None, online_learning cfg s3 rating ctx)))"

text \<open>Lines 541-557: the recomputations that close every successful call.\<close>

definition total_interactions :: "state \<Rightarrow> int" where
  "total_interactions s = int (sum_list (map (\<lambda>(uid, d). length (items d)) (user_interactions s)))"

definition recompute_due :: "int \<Rightarrow> bool" where
  "recompute_due n = (List.member [5, 10, 20, 30, 50, 100, 200, 500] n \<or> n mod 50 = 0)"

definition maintenance :: "config \<Rightarrow> env \<Rightarrow> state \<Rightarrow> state" where
  "maintenance cfg e s =
     (let s1 = (if recompute_due (total_interactions s)
                then update_popular_items cfg (compute_item_similarities e s) else s);
          s2 = (if int (length (user_interactions s1)) mod 50 = 0
                then cleanup_old_data cfg e s1 else s1)
      in if total_feedback (metrics s2) mod 20 = 0 then update_popular_items cfg s2 else s2)"

text \<open>
  \<open>record_interaction\<close> (lines 485-557). The result is the exception raised, if any,
  and the state the call leaves behind.
\<close>

definition record_interaction ::
  "config \<Rightarrow> env \<Rightarrow> state \<Rightarrow> py_val \<Rightarrow> py_val \<Rightarrow> string \<Rightarrow> int option \<Rightarrow> learn_ctx option
     \<Rightarrow> exn option \<times> state" where
  "record_interaction cfg e s user_id assessment_id interaction_type rating ctx =
     (if \<not> truthy user_id \<or> \<not> truthy assessment_id
      then (Some (ValueError ''user_id and assessment_id are required''), s)
      else if (case rating of None \<Rightarrow> False | Some r \<Rightarrow> \<not> (1 \<le> r \<and> r \<le> 5))
      then (Some (ValueError ''Rating must be between 1 and 5''), s)
      else
        let s1 = add_interaction e s user_id assessment_id (interaction_weight interaction_type rating)
        in case (case rating of
                   None \<Rightarrow> (None, s1)
                 | Some r \<Rightarrow> if r \<noteq> 0 then record_feedback cfg e s1 user_id assessment_id r ctx
                             else (None, s1)) of
             (Some ex, s2) \<Rightarrow> (Some ex, s2)
           | (None, s2) \<Rightarrow> (None, maintenance cfg e s2))"

section \<open>Start-up\<close>

text \<open>
  The \<open>feedback\<close> table declares \<open>user_id\<close> and \<open>assessment_id\<close> as TEXT
  (backend/database.py, lines 125-133): SQLite stores an integer id as its decimal string,
  and a row that is read back carries the string. \<open>db_feedback\<close> holds the values as
  they were bound to the INSERT; \<open>stored_row\<close> is the row as a SELECT returns it.
\<close>

definition digit_char :: "nat \<Rightarrow> char" where
  "digit_char d = ''0123456789'' ! (d mod 10)"

fun nat_digits :: "nat \<Rightarrow> string" where
  "nat_digits n = (if n < 10 then [digit_char n] else nat_digits (n div 10) @ [digit_char n])"

declare nat_digits.simps [simp del]

definition str_of_int :: "int \<Rightarrow> string" where
  "str_of_int i = (if i < 0 then CHR ''-'' # nat_digits (nat (- i)) else nat_digits (nat i))"

fun sqlite_text :: "py_val \<Rightarrow> py_val" where
  "sqlite_text (PyInt n) = PyStr (str_of_int n)"
| "sqlite_text v = v"

definition stored_row :: "feedback_item \<Rightarrow> feedback_item" where
  "stored_row f = f\<lparr>fb_user_id := sqlite_text (fb_user_id f),
                     fb_assessment_id := sqlite_text (fb_assessment_id f)\<rparr>"

text \<open>
  \<open>DatabasePersistence.load_recent_feedback\<close> (backend/database.py, lines 217-244) over
  the rows of the table, oldest first: the newest rows first, at most \<open>limit\<close> of them
  (SQLite reads a negative \<open>LIMIT\<close> as no limit), and the empty list when the query fails.
\<close>

definition load_recent_feedback :: "env \<Rightarrow> int \<Rightarrow> feedback_item list \<Rightarrow> feedback_item list" where
  "load_recent_feedback e limit rows =
     (case db e of
        DbOk \<Rightarrow> map stored_row (if limit < 0 then rev rows else take (nat limit) (rev rows))
      | _ \<Rightarrow> [])"

text \<open>
  \<open>__init__\<close> (lines 46-116) with \<open>_load_persisted_data\<close> and \<open>_initialize_models\<close>.
  \<open>init_recommender\<close> is the state the constructor builds once
  \<open>DatabasePersistence(...)\<close> has returned, over a feedback table holding \<open>rows\<close>; a
  failure of the load alone leaves the log empty. \<open>start_recommender\<close> is the
  constructor: when the database cannot be opened and queried,
  \<open>_ensure_valid_database\<close> and \<open>_handle_corrupted_database\<close> (backend/database.py,
  lines 36-92) raise, and no recommender exists.
\<close>

definition init_weights :: "(string \<times> real) list" where
  "init_weights =
     [(''role_match'', 3), (''level_match'', 2), (''industry_match'', 2), (''goal_match'', 3),
      (''semantic_similarity'', 4), (''collaborative_score'', 7 / 2), (''feedback_boost'', 2),
      (''category_match'', 5 / 2)]"

definition init_recommender :: "config \<Rightarrow> env \<Rightarrow> feedback_item list \<Rightarrow> state" where
  "init_recommender cfg e rows =
     update_popular_items cfg
       \<lparr>user_interactions = [], user_profiles = [], item_similarities = [],
        feature_weights = init_weights,
        feedback_data = load_recent_feedback e (max_feedback cfg) rows,
        popular_items = [],
        metrics = \<lparr>total_recommendations = 0, total_feedback = 0, avg_rating = 0,
                    model_updates = 0\<rparr>,
        db_feedback = rows,
        error_log = (case db e of DbOk \<Rightarrow> []
                     | DbConnectFails \<Rightarrow> [''Failed to load feedback'']
                     | DbExecuteFails \<Rightarrow> [''Database operation failed'', ''Failed to load feedback''])\<rparr>"

definition start_recommender :: "config \<Rightarrow> env \<Rightarrow> feedback_item list \<Rightarrow> exn + state" where
  "start_recommender cfg e rows =
     (if db e = DbOk then Inr (init_recommender cfg e rows) else Inl DatabaseError)"



definition lower_char :: "char \<Rightarrow> char" where
  "lower_char c =
     dict_get (zip ''ABCDEFGHIJKLMNOPQRSTUVWXYZ'' ''abcdefghijklmnopqrstuvwxyz'') c c"

definition lower :: "string \<Rightarrow> string" where
  "lower s = map lower_char s"



section \<open>get_advanced_recommendations\<close>

record score_breakdown =
  sb_content :: real
  sb_collaborative :: real
  sb_feedback :: real
  sb_popularity :: int

record recommendation =
  rec_assessment :: assessment
  total_score :: real
  match_percentage :: int
  breakdown :: score_breakdown
  is_new_user :: bool

text \<open>The substring test \<open>sub in s\<close> on strings.\<close>

fun str_in :: "string \<Rightarrow> string \<Rightarrow> bool" where
  "str_in sub [] = (sub = [])"
| "str_in sub (c # cs) = (prefix sub (c # cs) \<or> str_in sub cs)"

text \<open>\<open>round(x, 2)\<close>, ties to the even neighbour, and \<open>int(x)\<close>, truncation towards zero.\<close>

definition round_half_even :: "real \<Rightarrow> int" where
  "round_half_even y =
     (if y - of_int \<lfloor>y\<rfloor> < 1 / 2 then \<lfloor>y\<rfloor>
      else if y - of_int \<lfloor>y\<rfloor> > 1 / 2 then \<lfloor>y\<rfloor> + 1
      else if even \<lfloor>y\<rfloor> then \<lfloor>y\<rfloor> else \<lfloor>y\<rfloor> + 1)"

definition py_round2 :: "real \<Rightarrow> real" where
  "py_round2 x = of_int (round_half_even (x * 100)) / 100"

definition py_int :: "real \<Rightarrow> int" where
  "py_int x = (if 0 \<le> x then \<lfloor>x\<rfloor> else \<lceil>x\<rceil>)"

text \<open>
  Line 313: \<open>sems / (sems.max() + 1e-10)\<close>. The maximum of an empty array raises.
\<close>

definition normalize_scores :: "real list \<Rightarrow> exn + real list" where
  "normalize_scores sems =
     (if sems = [] then Inl (ValueError ''zero-size array to reduction operation maximum'')
      else Inr (map (\<lambda>x. x / (Max (set sems) + 1 / 10 ^ 10)) sems))"

text \<open>Lines 316-329: the collaborative score of every catalog item, keyed by item id.\<close>

definition collab_score :: "state \<Rightarrow> (py_val \<times> real) list \<Rightarrow> py_val \<Rightarrow> real" where
  "collab_score s history aid =
     (case fold (\<lambda>(past_item, past_score) (score, total_sim).
                   case map_of (item_similarities s) past_item of
                     Some nb \<Rightarrow> (score + dict_get nb aid 0 * past_score,
                                 total_sim + \<bar>dict_get nb aid 0\<bar>)
                   | None \<Rightarrow> (score, total_sim))
            history (0, 0) of
        (score, total_sim) \<Rightarrow> if total_sim > 0 then score / total_sim else 0)"

definition collaborative_scores :: "config \<Rightarrow> state \<Rightarrow> py_val \<Rightarrow> (py_val \<times> real) list" where
  "collaborative_scores cfg s user_id =
     (case map_of (user_interactions s) user_id of
        Some d \<Rightarrow>
          fold (\<lambda>a collab. AList.update (a_id a) (collab_score s (items d) (a_id a)) collab)
            (assessments cfg) []
      | None \<Rightarrow> fold (\<lambda>a collab. AList.update (a_id a) 0 collab) (assessments cfg) [])"

text \<open>
  Lines 333-382: the result for one item, from the item and its normalized semantic
  score. The feature weights are never all zero (each is at least 0.1), so
  \<open>max_possible_score\<close> is positive.
\<close>

definition score_item ::
  "state \<Rightarrow> bool \<Rightarrow> string \<Rightarrow> string \<Rightarrow> string \<Rightarrow> string \<Rightarrow> (py_val \<times> real) list
     \<Rightarrow> assessment \<times> real \<Rightarrow> recommendation" where
  "score_item s is_new role level industry goal collab ai =
     (let a = fst ai; sem = snd ai;
          rule_score =
            (if role \<noteq> [] \<and> list_ex (\<lambda>r. str_in (lower role) (lower r)) (a_roles a) then 2 else 0)
            + (if goal \<noteq> [] \<and> list_ex (\<lambda>g. str_in (lower goal) (lower g)) (a_goals a) then 2 else 0);
          level_match = (if level \<noteq> [] \<and> List.member (a_levels a) level then 1 else 0);
          ind_match =
            (if industry \<noteq> [] \<and> list_ex (\<lambda>ind. str_in (lower industry) (lower ind)) (a_industries a)
             then 1 else 0);
          recent_fb = filter (\<lambda>f. fb_assessment_id f = a_id a)
                        (py_slice_from (- 100) (feedback_data s));
          fb_boost = (if recent_fb \<noteq> []
                      then (mean (map (\<lambda>f. real_of_int (fb_rating f)) recent_fb) - 3) * (3 / 10)
                      else 0);
          feats = [(''role_match'', rule_score), (''level_match'', level_match),
                   (''industry_match'', ind_match), (''semantic_similarity'', sem),
                   (''collaborative_score'', dict_get collab (a_id a) 0),
                   (''feedback_boost'', fb_boost)];
          total0 = sum_list (map (\<lambda>(k, v). dict_get (feature_weights s) k 1 * v) feats);
          popular = (is_new \<and> List.member (popular_items s) (a_id a));
          total = (if popular then total0 + 2 else total0);
          max_possible_score = sum_list (map snd (feature_weights s)) + 2;
          raw_pct = total / max_possible_score * 100;
          match_pct = py_int (100 / (1 + exp (- (5 / 100) * (raw_pct - 50))))
      in \<lparr>rec_assessment = a,
          total_score = py_round2 total,
          match_percentage = max 0 (min 100 match_pct),
          breakdown = \<lparr>sb_content = py_round2 (rule_score * 2 + sem * 4),
                        sb_collaborative = py_round2 (dict_get collab (a_id a) 0 * (7 / 2)),
                        sb_feedback = py_round2 (fb_boost * 2),
                        sb_popularity = (if popular then 2 else 0)\<rparr>,
          is_new_user = is_new\<rparr>)"

text \<open>Lines 316-382: the results for the whole catalog, in catalog order.\<close>

definition score_all ::
  "config \<Rightarrow> state \<Rightarrow> py_val \<Rightarrow> string \<Rightarrow> string \<Rightarrow> string \<Rightarrow> string \<Rightarrow> real list
     \<Rightarrow> recommendation list" where
  "score_all cfg s user_id role level industry goal sems =
     map (score_item s (map_of (user_interactions s) user_id = None) role level industry goal
            (collaborative_scores cfg s user_id))
       (zip (assessments cfg) sems)"

text \<open>
  \<open>get_advanced_recommendations\<close> (lines 275-385). \<open>tfidf_cosine q i\<close> stands for
  lines 307-311: entry \<open>i\<close> of the cosine similarities between the vector of the expanded
  query \<open>q\<close> and the item vectors, computed by scikit-learn; \<open>now\<close> is the clock.
  \<open>touch_profile\<close> is lines 296-301, \<open>scored_results\<close> the list \<open>results\<close> before it is
  sorted (lines 303-382).
\<close>

definition touch_profile :: "int \<Rightarrow> state \<Rightarrow> py_val \<Rightarrow> state" where
  "touch_profile now s user_id =
     s\<lparr>metrics := (metrics s)\<lparr>total_recommendations := total_recommendations (metrics s) + 1\<rparr>,
       user_profiles :=
         AList.update user_id
           (case map_of (user_profiles s) user_id of
              None \<Rightarrow> \<lparr>first_seen = now, last_seen = now\<rparr>
            | Some p \<Rightarrow> p\<lparr>last_seen := now\<rparr>)
           (user_profiles s)\<rparr>"

definition scored_results ::
  "config \<Rightarrow> (string \<Rightarrow> nat \<Rightarrow> real) \<Rightarrow> state \<Rightarrow> py_val \<Rightarrow> string \<Rightarrow> string \<Rightarrow> string
     \<Rightarrow> string \<Rightarrow> string \<Rightarrow> exn + recommendation list" where
  "scored_results cfg tfidf_cosine s user_id role level industry goal query =
     (let q = (if query \<noteq> [] then query
               else role @ '' '' @ level @ '' '' @ industry @ '' '' @ goal)
      in case normalize_scores (map (tfidf_cosine q) [0..<length (assessments cfg)]) of
           Inl ex \<Rightarrow> Inl ex
         | Inr sems \<Rightarrow> Inr (score_all cfg s user_id role level industry goal sems))"

definition get_advanced_recommendations ::
  "config \<Rightarrow> (string \<Rightarrow> nat \<Rightarrow> real) \<Rightarrow> int \<Rightarrow> state \<Rightarrow> py_val \<Rightarrow> string \<Rightarrow> string \<Rightarrow> string
     \<Rightarrow> string \<Rightarrow> string \<Rightarrow> int \<Rightarrow> (exn + recommendation list) \<times> state" where
  "get_advanced_recommendations cfg tfidf_cosine now s user_id role level industry goal query top_k =
     (case scored_results cfg tfidf_cosine (touch_profile now s user_id) user_id role level
             industry goal query of
        Inl ex \<Rightarrow> (Inl ex, touch_profile now s user_id)
      | Inr results \<Rightarrow>
          (Inr (py_slice_to top_k (sort_desc total_score results)), touch_profile now s user_id))"

section \<open>Concrete inputs and stated properties\<close>

definition item_a :: assessment where
  "item_a = \<lparr>a_id = PyInt 1, a_name = ''Coding Test'', a_category = ''Skills'',
     a_description = ''Code'', a_roles = [''Developer''], a_levels = [''Entry''],
     a_industries = [''Technology''], a_goals = [''Hiring''],
     a_key_features = [''Fast''], a_benefits = [''Fair'']\<rparr>"

definition item_b :: assessment where
  "item_b = \<lparr>a_id = PyInt 2, a_name = ''Leadership Report'', a_category = ''Behavioral'',
     a_description = ''Lead'', a_roles = [''Manager''], a_levels = [''Senior''],
     a_industries = [''Finance''], a_goals = [''Development''],
     a_key_features = [''Deep''], a_benefits = [''Clear'']\<rparr>"

definition small_cfg :: config where
  "small_cfg = \<lparr>assessments = [item_a, item_b], max_feedback = 1, user_ttl_days = 30,
     learning_rate = 1 / 100\<rparr>"

definition env_ok :: env where
  "env_ok = \<lparr>t_activity = 1000, t_feedback = 1001, t_cleanup = 1002, db = DbOk,
     set_order = remdups, cosine_similarity = (\<lambda>m i j. if i = j then 1 else 1 / 2)\<rparr>"

definition env_db_down :: env where
  "env_db_down = env_ok\<lparr>db := DbExecuteFails\<rparr>"

definition fresh_state :: state where
  "fresh_state = init_recommender small_cfg env_ok []"

definition after_first :: state where
  "after_first = snd (record_interaction small_cfg env_ok fresh_state (PyStr ''u1'') (PyInt 1)
                        ''rate'' (Some 5) None)"

definition crowd_state :: state where
  "crowd_state = after_first
     \<lparr>user_interactions :=
        map (\<lambda>i. (PyInt (int i), \<lparr>items = [(PyInt 1, 1)], last_activity = 1000\<rparr>)) [1..<50]\<rparr>"

text \<open>The bound of the feature weights: every weight lies in [0.1, 10].\<close>

definition weight_in_range :: "real \<Rightarrow> bool" where
  "weight_in_range w = (1 / 10 \<le> w \<and> w \<le> 10)"

definition weights_ok :: "state \<Rightarrow> bool" where
  "weights_ok s = list_all (\<lambda>kw. weight_in_range (snd kw)) (feature_weights s)"

text \<open>The context the \<open>/api/feedback\<close> route passes, with two more features.\<close>

definition flask_ctx :: "learn_ctx option" where
  "flask_ctx = Some \<lparr>features = Some [(''semantic_similarity'', 1 / 2), (''content'', 7), (''role_match'', 0)],
                      predicted_score = Some 10\<rparr>"

text \<open>The accumulated weight of a (user, item) pair in the interaction store, 0 when absent.\<close>

definition stored_weight :: "state \<Rightarrow> py_val \<Rightarrow> py_val \<Rightarrow> real" where
  "stored_weight s user_id assessment_id =
     (case map_of (user_interactions s) user_id of
        None \<Rightarrow> 0
      | Some d \<Rightarrow> dict_get (items d) assessment_id 0)"



text \<open>A similarity oracle that gives every item the raw similarity 0.5.\<close>

definition flat_cosine :: "string \<Rightarrow> nat \<Rightarrow> real" where
  "flat_cosine q i = 1 / 2"

text \<open>
  The invariant of the similarity cache: every stored neighbour list has at most 20
  entries, does not hold its own item, and is in descending order of similarity.
\<close>

definition neighbours_ok :: "py_val \<times> (py_val \<times> real) list \<Rightarrow> bool" where
  "neighbours_ok entry =
     (length (snd entry) \<le> 20
      \<and> \<not> List.member (map fst (snd entry)) (fst entry)
      \<and> sorted_wrt (\<lambda>x y. snd y \<le> snd x) (snd entry))"

definition cache_ok :: "state \<Rightarrow> bool" where
  "cache_ok s = list_all neighbours_ok (item_similarities s)"

text \<open>What \<open>list(s)\<close> of a Python set gives: the elements of the set, each once.\<close>

definition is_set_order :: "(py_val list \<Rightarrow> py_val list) \<Rightarrow> bool" where
  "is_set_order f = (\<forall>xs. distinct (f xs) \<and> set (f xs) = set xs)"

text \<open>Two users over three items, and a similarity matrix with entry \<open>(i + j) / 10\<close>.\<close>

definition env_sims :: env where
  "env_sims = env_ok\<lparr>cosine_similarity := (\<lambda>m i j. real (i + j) / 10)\<rparr>"

definition two_users :: state where
  "two_users = fresh_state
     \<lparr>user_interactions :=
        [(PyStr ''u1'', \<lparr>items = [(PyInt 1, 1), (PyInt 2, 1 / 2), (PyInt 3, 1 / 10)],
                          last_activity = 1000\<rparr>),
         (PyStr ''u2'', \<lparr>items = [(PyInt 1, 1)], last_activity = 1000\<rparr>)]\<rparr>"

text \<open>
  A restart over a feedback table with two events, after which 49 users have interacted
  without rating.
\<close>

definition row10 :: feedback_item where
  "row10 = \<lparr>fb_user_id = PyStr ''u1'', fb_assessment_id = PyInt 1, fb_rating = 5, fb_timestamp = 10\<rparr>"

definition row20 :: feedback_item where
  "row20 = \<lparr>fb_user_id = PyStr ''u1'', fb_assessment_id = PyInt 2, fb_rating = 4, fb_timestamp = 20\<rparr>"

definition cfg_two :: config where
  "cfg_two = small_cfg\<lparr>max_feedback := 2\<rparr>"

definition restarted :: state where
  "restarted = (init_recommender cfg_two env_ok [row10, row20])
     \<lparr>user_interactions :=
        map (\<lambda>i. (PyInt (int i), \<lparr>items = [(PyInt 1, 1 / 10)], last_activity = 1000\<rparr>)) [1..<50]\<rparr>"

text \<open>A configuration whose TTL is zero days.\<close>

definition cfg_ttl0 :: config where
  "cfg_ttl0 = small_cfg\<lparr>user_ttl_days := 0\<rparr>"

section \<open>Exceptions of the feedback branch\<close>

lemma save_feedback_raises:
  "save_feedback e s item = (Some ex, s') \<Longrightarrow> ex = DatabaseError"
  by (auto simp: save_feedback_def split: db_status.splits)

lemma record_feedback_raises:
  "record_feedback cfg e s u a r c = (Some ex, s') \<Longrightarrow> ex = DatabaseError"
  by (auto simp: record_feedback_def Let_def split: prod.splits option.splits
           dest: save_feedback_raises)

section \<open>What each step leaves unchanged\<close>

lemma update_popular_items_frame:
  "user_interactions (update_popular_items cfg s) = user_interactions s"
  "user_profiles (update_popular_items cfg s) = user_profiles s"
  "item_similarities (update_popular_items cfg s) = item_similarities s"
  "feature_weights (update_popular_items cfg s) = feature_weights s"
  "feedback_data (update_popular_items cfg s) = feedback_data s"
  "metrics (update_popular_items cfg s) = metrics s"
  "db_feedback (update_popular_items cfg s) = db_feedback s"
  "error_log (update_popular_items cfg s) = error_log s"
  by (simp_all add: update_popular_items_def)

lemma compute_item_similarities_frame:
  "user_interactions (compute_item_similarities e s) = user_interactions s"
  "user_profiles (compute_item_similarities e s) = user_profiles s"
  "feature_weights (compute_item_similarities e s) = feature_weights s"
  "feedback_data (compute_item_similarities e s) = feedback_data s"
  "popular_items (compute_item_similarities e s) = popular_items s"
  "metrics (compute_item_similarities e s) = metrics s"
  "db_feedback (compute_item_similarities e s) = db_feedback s"
  "error_log (compute_item_similarities e s) = error_log s"
  by (simp_all add: compute_item_similarities_def)

lemma cleanup_old_data_frame:
  "item_similarities (cleanup_old_data cfg e s) = item_similarities s"
  "feature_weights (cleanup_old_data cfg e s) = feature_weights s"
  "popular_items (cleanup_old_data cfg e s) = popular_items s"
  "metrics (cleanup_old_data cfg e s) = metrics s"
  "db_feedback (cleanup_old_data cfg e s) = db_feedback s"
  "error_log (cleanup_old_data cfg e s) = error_log s"
  by (simp_all add: cleanup_old_data_def)

lemma cleanup_old_data_feedback:
  "feedback_data (cleanup_old_data cfg e s) =
     (if int (length (feedback_data s)) > max_feedback cfg
      then py_slice_from (- max_feedback cfg) (feedback_data s) else feedback_data s)"
  by (simp add: cleanup_old_data_def)

lemma cleanup_old_data_users:
  "user_interactions (cleanup_old_data cfg e s) =
     fold AList.delete (old_users cfg e (user_interactions s)) (user_interactions s)"
  by (simp add: cleanup_old_data_def)

lemma maintenance_frame:
  "feature_weights (maintenance cfg e s) = feature_weights s"
  "metrics (maintenance cfg e s) = metrics s"
  "db_feedback (maintenance cfg e s) = db_feedback s"
  "error_log (maintenance cfg e s) = error_log s"
  by (simp_all add: maintenance_def Let_def update_popular_items_frame
        compute_item_similarities_frame cleanup_old_data_frame)

lemma maintenance_feedback:
  "feedback_data (maintenance cfg e s) =
     (if int (length (user_interactions s)) mod 50 = 0
      then feedback_data (cleanup_old_data cfg e s) else feedback_data s)"
  by (simp add: maintenance_def Let_def update_popular_items_frame
        compute_item_similarities_frame cleanup_old_data_feedback)

lemma maintenance_users:
  "user_interactions (maintenance cfg e s) =
     (if int (length (user_interactions s)) mod 50 = 0
      then user_interactions (cleanup_old_data cfg e s) else user_interactions s)"
  by (simp add: maintenance_def Let_def update_popular_items_frame
        compute_item_similarities_frame cleanup_old_data_users)

lemma add_interaction_frame:
  "feedback_data (add_interaction e s u a w) = feedback_data s"
  "feature_weights (add_interaction e s u a w) = feature_weights s"
  "metrics (add_interaction e s u a w) = metrics s"
  "db_feedback (add_interaction e s u a w) = db_feedback s"
  "error_log (add_interaction e s u a w) = error_log s"
  "item_similarities (add_interaction e s u a w) = item_similarities s"
  "popular_items (add_interaction e s u a w) = popular_items s"
  "user_profiles (add_interaction e s u a w) = user_profiles s"
  by (simp_all add: add_interaction_def Let_def)

lemma online_learning_frame:
  "feedback_data (online_learning cfg s r c) = feedback_data s"
  "user_interactions (online_learning cfg s r c) = user_interactions s"
  "db_feedback (online_learning cfg s r c) = db_feedback s"
  "error_log (online_learning cfg s r c) = error_log s"
  by (simp_all add: online_learning_def split: option.splits)

lemma record_feedback_down:
  "db e \<noteq> DbOk \<Longrightarrow>
   record_feedback cfg e s u a r c =
     (Some DatabaseError,
      s\<lparr>feedback_data := feedback_data s @ [new_feedback e u a r],
        error_log := error_log s @
          (if db e = DbConnectFails then [''Failed to save feedback'']
           else [''Database operation failed'', ''Failed to save feedback''])\<rparr>)"
  by (cases "db e") (simp_all add: record_feedback_def save_feedback_def Let_def)

lemma record_feedback_up:
  "db e = DbOk \<Longrightarrow>
   record_feedback cfg e s u a r c =
     (None,
      online_learning cfg
        (s\<lparr>feedback_data := feedback_data s @ [new_feedback e u a r],
           db_feedback := db_feedback s @ [new_feedback e u a r],
           metrics := (metrics s)
             \<lparr>total_feedback := total_feedback (metrics s) + 1,
              avg_rating := mean (map (\<lambda>f. real_of_int (fb_rating f))
                                   (feedback_data s @ [new_feedback e u a r]))\<rparr>\<rparr>) r c)"
  by (simp add: record_feedback_def save_feedback_def Let_def)

lemma record_interaction_rated:
  "truthy u \<Longrightarrow> truthy a \<Longrightarrow> 1 \<le> r \<Longrightarrow> r \<le> 5 \<Longrightarrow>
   record_interaction cfg e s u a t (Some r) c =
     (case record_feedback cfg e (add_interaction e s u a (interaction_weight t (Some r))) u a r c of
        (Some ex, s2) \<Rightarrow> (Some ex, s2)
      | (None, s2) \<Rightarrow> (None, maintenance cfg e s2))"
  by (simp add: record_interaction_def Let_def)

lemma fresh_state_eq:
  "fresh_state =
     \<lparr>user_interactions = [], user_profiles = [], item_similarities = [],
      feature_weights = init_weights, feedback_data = [], popular_items = [PyInt 1, PyInt 2],
      metrics = \<lparr>total_recommendations = 0, total_feedback = 0, avg_rating = 0, model_updates = 0\<rparr>,
      db_feedback = [], error_log = []\<rparr>"
  by (simp add: fresh_state_def init_recommender_def small_cfg_def env_ok_def
        update_popular_items_def popular_ranking_def interaction_scores_def sort_desc_def
        item_a_def item_b_def load_recent_feedback_def)

section \<open>Validation\<close>

text \<open>
  C1. \<open>record_interaction\<close> raises a \<open>ValueError\<close> exactly when \<open>user_id\<close> is missing,
  \<open>assessment_id\<close> is missing (Python's \<open>not x\<close>: \<open>None\<close>, the empty string or 0), or a
  supplied rating lies outside 1..5; a rating of 0 or 6 always fails; and on such a failure
  the whole state (interaction store, feedback log, feature weights, metrics and every
  other attribute) is the state before the call.
\<close>

theorem record_interaction_validation:
  "((\<exists>msg. fst (record_interaction cfg e s u a t r c) = Some (ValueError msg))
      \<longleftrightarrow> (\<not> truthy u \<or> \<not> truthy a \<or> (\<exists>n. r = Some n \<and> (n < 1 \<or> 5 < n))))
   \<and> ((\<exists>msg. fst (record_interaction cfg e s u a t r c) = Some (ValueError msg))
      \<longrightarrow> snd (record_interaction cfg e s u a t r c) = s)
   \<and> (r = Some 0 \<or> r = Some 6
      \<longrightarrow> (\<exists>msg. record_interaction cfg e s u a t r c = (Some (ValueError msg), s)))"
  by (auto simp: record_interaction_def Let_def split: prod.splits option.splits if_splits
           dest: record_feedback_raises)

theorem record_interaction_validation_witness:
  "(\<exists>msg. fst (record_interaction small_cfg env_ok (init_recommender small_cfg env_ok [])
              (PyStr ''u1'') (PyInt 1) ''rate'' (Some 6) None) = Some (ValueError msg))
   \<and> snd (record_interaction small_cfg env_ok (init_recommender small_cfg env_ok [])
              (PyStr ''u1'') (PyInt 1) ''rate'' (Some 6) None)
       = init_recommender small_cfg env_ok []
   \<and> fst (record_interaction small_cfg env_ok (init_recommender small_cfg env_ok [])
              (PyStr ''u1'') (PyInt 1) ''rate'' (Some 5) None) = None"
  using record_interaction_validation [of small_cfg env_ok "init_recommender small_cfg env_ok []"
          "PyStr ''u1''" "PyInt 1" "''rate''" "Some 6" None]
        record_interaction_validation [of small_cfg env_ok "init_recommender small_cfg env_ok []"
          "PyStr ''u1''" "PyInt 1" "''rate''" "Some 5" None]
  by (auto simp: record_interaction_def record_feedback_def save_feedback_def env_ok_def Let_def)

section \<open>Persistence failures\<close>

text \<open>
  C2, as the code has it. \<open>save_feedback\<close> logs a failure and raises it again, and
  \<open>record_interaction\<close> does not catch it: the call ends with the database exception.
  The event appended to the feedback log and the weight accumulated before the save stay;
  the steps after the save (metrics, online learning, recomputation, clean-up) are not
  run. When the save succeeds the call returns normally and the row is stored.
\<close>

theorem save_failure_propagates:
  assumes "truthy u" and "truthy a" and "1 \<le> r" and "r \<le> 5"
  shows "(db e \<noteq> DbOk \<longrightarrow>
            fst (record_interaction cfg e s u a t (Some r) c) = Some DatabaseError
          \<and> feedback_data (snd (record_interaction cfg e s u a t (Some r) c))
              = feedback_data s @ [new_feedback e u a r]
          \<and> user_interactions (snd (record_interaction cfg e s u a t (Some r) c))
              = user_interactions (add_interaction e s u a (interaction_weight t (Some r)))
          \<and> error_log (snd (record_interaction cfg e s u a t (Some r) c))
              = error_log s @ (if db e = DbConnectFails then [''Failed to save feedback'']
                               else [''Database operation failed'', ''Failed to save feedback''])
          \<and> metrics (snd (record_interaction cfg e s u a t (Some r) c)) = metrics s
          \<and> feature_weights (snd (record_interaction cfg e s u a t (Some r) c)) = feature_weights s
          \<and> item_similarities (snd (record_interaction cfg e s u a t (Some r) c)) = item_similarities s
          \<and> popular_items (snd (record_interaction cfg e s u a t (Some r) c)) = popular_items s
          \<and> db_feedback (snd (record_interaction cfg e s u a t (Some r) c)) = db_feedback s)
       \<and> (db e = DbOk \<longrightarrow>
            fst (record_interaction cfg e s u a t (Some r) c) = None
          \<and> db_feedback (snd (record_interaction cfg e s u a t (Some r) c))
              = db_feedback s @ [new_feedback e u a r]
          \<and> error_log (snd (record_interaction cfg e s u a t (Some r) c)) = error_log s)"
proof (cases "db e = DbOk")
  case True
  then show ?thesis
    using assms
    by (simp add: record_interaction_rated record_feedback_up maintenance_frame
          online_learning_frame add_interaction_frame)
next
  case False
  then show ?thesis
    using assms
    by (simp add: record_interaction_rated record_feedback_down add_interaction_frame)
qed

theorem save_failure_propagates_witness:
  "truthy (PyStr ''u1'') \<and> truthy (PyInt 1) \<and> db env_db_down \<noteq> DbOk
   \<and> fst (record_interaction small_cfg env_db_down fresh_state (PyStr ''u1'') (PyInt 1) ''rate''
          (Some 5) None) = Some DatabaseError
   \<and> feedback_data (snd (record_interaction small_cfg env_db_down fresh_state (PyStr ''u1'')
          (PyInt 1) ''rate'' (Some 5) None))
       = [\<lparr>fb_user_id = PyStr ''u1'', fb_assessment_id = PyInt 1, fb_rating = 5,
            fb_timestamp = 1001\<rparr>]
   \<and> error_log (snd (record_interaction small_cfg env_db_down fresh_state (PyStr ''u1'')
          (PyInt 1) ''rate'' (Some 5) None))
       = [''Database operation failed'', ''Failed to save feedback'']
   \<and> metrics (snd (record_interaction small_cfg env_db_down fresh_state (PyStr ''u1'')
          (PyInt 1) ''rate'' (Some 5) None)) = metrics fresh_state
   \<and> fst (record_interaction small_cfg env_ok fresh_state (PyStr ''u1'') (PyInt 1) ''rate''
          (Some 5) None) = None"
  using save_failure_propagates [of "PyStr ''u1''" "PyInt 1" 5 env_db_down small_cfg fresh_state
          "''rate''" None]
        save_failure_propagates [of "PyStr ''u1''" "PyInt 1" 5 env_ok small_cfg fresh_state
          "''rate''" None]
  by (simp add: env_db_down_def env_ok_def fresh_state_eq new_feedback_def)

text \<open>
  C2 as stated fails: with the database down, a call with a valid rating does not return
  normally, and the feedback counter is not updated.
\<close>

theorem save_failure_counterexample:
  "fst (record_interaction small_cfg env_db_down fresh_state (PyStr ''u1'') (PyInt 1) ''rate''
          (Some 5) None) = Some DatabaseError
   \<and> total_feedback (metrics (snd (record_interaction small_cfg env_db_down fresh_state
          (PyStr ''u1'') (PyInt 1) ''rate'' (Some 5) None))) = 0"
  by (simp add: record_interaction_def record_feedback_def save_feedback_def env_db_down_def
        env_ok_def fresh_state_eq add_interaction_def Let_def)

section \<open>Trimming the feedback log\<close>

lemma after_first_eq:
  "after_first =
     \<lparr>user_interactions = [(PyStr ''u1'', \<lparr>items = [(PyInt 1, 1)], last_activity = 1000\<rparr>)],
      user_profiles = [], item_similarities = [],
      feature_weights = init_weights,
      feedback_data = [\<lparr>fb_user_id = PyStr ''u1'', fb_assessment_id = PyInt 1, fb_rating = 5,
                         fb_timestamp = 1001\<rparr>],
      popular_items = [PyInt 1, PyInt 2],
      metrics = \<lparr>total_recommendations = 0, total_feedback = 1, avg_rating = 5, model_updates = 0\<rparr>,
      db_feedback = [\<lparr>fb_user_id = PyStr ''u1'', fb_assessment_id = PyInt 1, fb_rating = 5,
                       fb_timestamp = 1001\<rparr>],
      error_log = []\<rparr>"
  by (simp add: after_first_def record_interaction_def record_feedback_def save_feedback_def
        online_learning_def new_feedback_def interaction_weight_def add_interaction_def
        dict_get_def dict_add_def mean_def maintenance_def total_interactions_def
        recompute_due_def env_ok_def fresh_state_eq Let_def)

lemma py_slice_from_last:
  "1 \<le> m \<Longrightarrow> py_slice_from (- m) xs = drop (length xs - nat m) xs"
  by (simp add: py_slice_from_def)

lemma length_update:
  "length (AList.update k v al) = (if k \<in> fst ` set al then length al else Suc (length al))"
  by (induction al) auto

lemma crowd_users:
  "length (user_interactions (add_interaction env_ok crowd_state (PyStr ''u50'') (PyInt 1) w)) = 50"
  by (auto simp: add_interaction_def crowd_state_def Let_def length_update)

text \<open>
  The feedback log after a call that appends an event and returns: the clean-up pass runs
  when the number of tracked users is a multiple of 50, and only then is the log cut to its
  last \<open>max_feedback\<close> entries in list order.
\<close>

lemma feedback_after_rating:
  assumes "truthy u" and "truthy a" and "1 \<le> r" and "r \<le> 5" and "db e = DbOk"
  shows "feedback_data (snd (record_interaction cfg e s u a t (Some r) c)) =
           (if int (length (user_interactions
                      (add_interaction e s u a (interaction_weight t (Some r))))) mod 50 = 0
               \<and> max_feedback cfg < int (length (feedback_data s)) + 1
            then py_slice_from (- max_feedback cfg) (feedback_data s @ [new_feedback e u a r])
            else feedback_data s @ [new_feedback e u a r])
       \<and> (int (length (user_interactions
                      (add_interaction e s u a (interaction_weight t (Some r))))) mod 50 = 0
            \<and> 1 \<le> max_feedback cfg
          \<longrightarrow> int (length (feedback_data (snd (record_interaction cfg e s u a t (Some r) c))))
                \<le> max_feedback cfg
            \<and> feedback_data (snd (record_interaction cfg e s u a t (Some r) c))
                = drop (length (feedback_data s) + 1 - nat (max_feedback cfg))
                    (feedback_data s @ [new_feedback e u a r]))"
  using assms
  by (auto simp: record_interaction_rated record_feedback_up maintenance_feedback
        cleanup_old_data_feedback online_learning_frame add_interaction_frame
        py_slice_from_last)

lemma second_rating_untrimmed:
  "fst (record_interaction small_cfg env_ok after_first (PyStr ''u1'') (PyInt 1) ''rate''
          (Some 4) None) = None
   \<and> length (feedback_data (snd (record_interaction small_cfg env_ok after_first (PyStr ''u1'')
          (PyInt 1) ''rate'' (Some 4) None))) = 2
   \<and> max_feedback small_cfg = 1"
  by (simp add: after_first_eq record_interaction_def record_feedback_def save_feedback_def
        online_learning_def new_feedback_def interaction_weight_def add_interaction_def
        dict_get_def dict_add_def mean_def maintenance_def total_interactions_def
        recompute_due_def env_ok_def small_cfg_def Let_def)



lemma sqlite_text_ids:
  "str_of_int 1 = ''1''" "str_of_int 2 = ''2''"
  by (simp_all add: str_of_int_def nat_digits.simps [of "Suc 0"] nat_digits.simps [of 2]
        digit_char_def)

lemma restarted_feedback:
  "feedback_data restarted =
     [\<lparr>fb_user_id = PyStr ''u1'', fb_assessment_id = PyStr ''2'', fb_rating = 4, fb_timestamp = 20\<rparr>,
      \<lparr>fb_user_id = PyStr ''u1'', fb_assessment_id = PyStr ''1'', fb_rating = 5, fb_timestamp = 10\<rparr>]"
  by (simp add: restarted_def init_recommender_def update_popular_items_frame
        load_recent_feedback_def cfg_two_def small_cfg_def env_ok_def row10_def row20_def
        stored_row_def sqlite_text_ids)

lemma restarted_users:
  "length (user_interactions (add_interaction env_ok restarted (PyStr ''u50'') (PyInt 1) w)) = 50"
  by (auto simp: add_interaction_def restarted_def Let_def length_update)

lemma restarted_trim:
  "feedback_data (snd (record_interaction cfg_two env_ok restarted (PyStr ''u50'') (PyInt 1)
      ''rate'' (Some 4) None)) =
     [\<lparr>fb_user_id = PyStr ''u1'', fb_assessment_id = PyStr ''1'', fb_rating = 5, fb_timestamp = 10\<rparr>,
      \<lparr>fb_user_id = PyStr ''u50'', fb_assessment_id = PyInt 1, fb_rating = 4, fb_timestamp = 1001\<rparr>]"
proof -
  have "db env_ok = DbOk" "t_feedback env_ok = 1001" by (simp_all add: env_ok_def)
  moreover have "max_feedback cfg_two = 2" by (simp add: cfg_two_def)
  ultimately show ?thesis
    using feedback_after_rating [of "PyStr ''u50''" "PyInt 1" 4 env_ok cfg_two restarted
            "''rate''" None]
    by (simp add: restarted_users restarted_feedback new_feedback_def py_slice_from_def)
qed

text \<open>
  C3 on the code, at two inputs where it departs from the claim. The trim runs only in the
  clean-up pass: from a fresh start with \<open>max_feedback = 1\<close>, the second rating of one
  user returns normally and leaves two events in the log. And the log loaded at start-up is
  newest first, so a trim after a restart drops a newer event and keeps an older one: over
  a table with events at times 10 and 20 and \<open>max_feedback = 2\<close> the log starts as
  \<open>[20, 10]\<close>, and the trim that follows a new rating (time 1001) leaves \<open>[10, 1001]\<close>.
\<close>

theorem feedback_log_overflow:
  "fst (record_interaction small_cfg env_ok after_first (PyStr ''u1'') (PyInt 1) ''rate''
          (Some 4) None) = None
   \<and> length (feedback_data (snd (record_interaction small_cfg env_ok after_first (PyStr ''u1'')
          (PyInt 1) ''rate'' (Some 4) None))) = 2
   \<and> max_feedback small_cfg = 1
   \<and> map fb_timestamp (feedback_data restarted) = [20, 10]
   \<and> max_feedback cfg_two = 2
   \<and> map fb_timestamp (feedback_data (snd (record_interaction cfg_two env_ok restarted
          (PyStr ''u50'') (PyInt 1) ''rate'' (Some 4) None))) = [10, 1001]"
proof -
  have "max_feedback cfg_two = 2" by (simp add: cfg_two_def)
  with second_rating_untrimmed show ?thesis
    by (simp add: restarted_feedback restarted_trim)
qed

theorem feedback_log_overflow_witness:
  "max_feedback small_cfg
     < int (length (feedback_data (snd (record_interaction small_cfg env_ok after_first
              (PyStr ''u1'') (PyInt 1) ''rate'' (Some 4) None))))
   \<and> hd (map fb_timestamp (feedback_data restarted)) = 20
   \<and> hd (map fb_timestamp (feedback_data (snd (record_interaction cfg_two env_ok restarted
              (PyStr ''u50'') (PyInt 1) ''rate'' (Some 4) None)))) = 10"
  using feedback_log_overflow by simp

section \<open>Online learning\<close>

lemma set_update_cases:
  "kv \<in> set (AList.update k v al) \<Longrightarrow> kv = (k, v) \<or> kv \<in> set al"
  by (induction al) (auto split: if_splits)

lemma update_present_keys:
  "map_of al k = Some w \<Longrightarrow> map fst (AList.update k v al) = map fst al"
  by (induction al) (auto split: if_splits)

lemma clamp_weight_range: "weight_in_range (clamp_weight w)"
  by (simp add: clamp_weight_def weight_in_range_def)

lemma update_in_range:
  "list_all (\<lambda>kw. weight_in_range (snd kw)) fw \<Longrightarrow> weight_in_range v \<Longrightarrow>
   list_all (\<lambda>kw. weight_in_range (snd kw)) (AList.update k v fw)"
  by (induction fw) auto

lemma learn_features_keys: "map fst (learn_features lr err fs fw) = map fst fw"
proof (induction fs arbitrary: fw)
  case Nil
  show ?case by simp
next
  case (Cons fv fs)
  obtain feat v where fv: "fv = (feat, v)" by (cases fv)
  show ?case
    by (simp add: fv Cons.IH update_present_keys split: option.splits)
qed

lemma learn_features_range:
  "list_all (\<lambda>kw. weight_in_range (snd kw)) fw \<Longrightarrow>
   list_all (\<lambda>kw. weight_in_range (snd kw)) (learn_features lr err fs fw)"
proof (induction fs arbitrary: fw)
  case Nil
  then show ?case by simp
next
  case (Cons fv fs)
  obtain feat v where fv: "fv = (feat, v)" by (cases fv)
  show ?case
    using Cons.prems
    by (simp add: fv Cons.IH update_in_range clamp_weight_range split: option.splits)
qed

lemma learn_features_map_of:
  "distinct (map fst fs) \<Longrightarrow>
   map_of (learn_features lr err fs fw) k =
     (case map_of fw k of
        None \<Rightarrow> None
      | Some w \<Rightarrow>
          (case map_of fs k of
             Some v \<Rightarrow> if v \<noteq> 0 then Some (clamp_weight (w + lr * (err * v))) else Some w
           | None \<Rightarrow> Some w))"
proof (induction fs arbitrary: fw k)
  case Nil
  show ?case by (simp split: option.splits)
next
  case (Cons fv fs)
  obtain feat v where fv: "fv = (feat, v)" by (cases fv)
  from Cons.prems have nf: "map_of fs feat = None" and d: "distinct (map fst fs)"
    by (auto simp: fv map_of_eq_None_iff)
  show ?case
  proof (cases "k = feat")
    case True
    then show ?thesis
      using nf by (simp add: fv Cons.IH [OF d] update_conv' split: option.splits)
  next
    case False
    then show ?thesis
      by (simp add: fv Cons.IH [OF d] update_conv' split: option.splits)
  qed
qed

lemma online_learning_weights:
  "feature_weights (online_learning cfg s r c) =
     (case c of
        None \<Rightarrow> feature_weights s
      | Some x \<Rightarrow>
          (case (features x, predicted_score x) of
             (Some fs, Some p) \<Rightarrow>
               learn_features (learning_rate cfg) (real_of_int r / 5 - p / 20) fs (feature_weights s)
           | _ \<Rightarrow> feature_weights s))"
  by (simp add: online_learning_def split: option.splits)

lemma online_learning_weights_ok:
  "list_all (\<lambda>kw. weight_in_range (snd kw)) (feature_weights s) \<Longrightarrow>
   list_all (\<lambda>kw. weight_in_range (snd kw)) (feature_weights (online_learning cfg s r c))"
  by (simp add: online_learning_weights learn_features_range split: option.splits)

lemma record_feedback_weights_ok:
  "weights_ok s \<Longrightarrow> weights_ok (snd (record_feedback cfg e s u a r c))"
  by (cases "db e = DbOk")
     (simp_all add: weights_ok_def record_feedback_up record_feedback_down
        online_learning_weights_ok)

lemma record_interaction_weights_ok:
  "weights_ok s \<Longrightarrow> weights_ok (snd (record_interaction cfg e s u a t r c))"
proof -
  assume ok: "weights_ok s"
  have 1: "weights_ok (add_interaction e s u a w)" for w
    using ok by (simp add: weights_ok_def add_interaction_frame)
  have 2: "weights_ok (maintenance cfg e x)" if "weights_ok x" for x
    using that by (simp add: weights_ok_def maintenance_frame)
  have 3: "weights_ok (snd (record_feedback cfg e (add_interaction e s u a w) u a n c))" for w n
    by (rule record_feedback_weights_ok [OF 1])
  show ?thesis
  proof (cases r)
    case None
    then show ?thesis
      using ok 1 2 by (simp add: record_interaction_def Let_def)
  next
    case (Some n)
    show ?thesis
      using ok 1 2 3 [of "interaction_weight t (Some n)" n]
      by (auto simp: record_interaction_def Let_def Some split: prod.splits option.splits)
  qed
qed

lemma get_advanced_recommendations_weights:
  "feature_weights (snd (get_advanced_recommendations cfg sem now s u role level ind goal q k))
     = feature_weights s"
  by (simp add: get_advanced_recommendations_def touch_profile_def split: sum.splits)

lemma init_weights_ok: "weights_ok (init_recommender cfg e rows)"
  by (simp add: weights_ok_def init_recommender_def update_popular_items_frame init_weights_def
        weight_in_range_def)

text \<open>
  C7, as the code has it. In a call with present ids, a valid rating and a context holding
  \<open>features\<close> (a dict, so its keys are distinct) and \<open>predicted_score\<close>: when the save
  succeeds, every weight that the context names with a nonzero value takes one step
  \<open>w + learning_rate * (rating/5 - predicted_score/20) * value\<close> clamped to [0.1, 10], and
  every other weight and the set of weight names are unchanged; when the save fails, the
  call ends with the database exception before the learning step and no weight changes.
  The weights start in [0.1, 10] and stay there under \<open>record_interaction\<close> (whatever its
  arguments and outcome) and \<open>get_advanced_recommendations\<close>.
\<close>

theorem online_learning_step:
  assumes "truthy u" and "truthy a" and "1 \<le> r" and "r \<le> 5"
    and "c = Some \<lparr>features = Some fs, predicted_score = Some p\<rparr>"
    and "distinct (map fst fs)"
  shows "(db e = DbOk \<longrightarrow>
            map_of (feature_weights (snd (record_interaction cfg e s u a t (Some r) c))) feat =
              (case map_of (feature_weights s) feat of
                 None \<Rightarrow> None
               | Some w \<Rightarrow>
                   (case map_of fs feat of
                      Some v \<Rightarrow>
                        if v \<noteq> 0
                        then Some (max (1 / 10)
                                    (min 10 (w + learning_rate cfg * ((real_of_int r / 5 - p / 20) * v))))
                        else Some w
                    | None \<Rightarrow> Some w))
          \<and> map fst (feature_weights (snd (record_interaction cfg e s u a t (Some r) c)))
              = map fst (feature_weights s))
       \<and> (db e \<noteq> DbOk \<longrightarrow>
            fst (record_interaction cfg e s u a t (Some r) c) = Some DatabaseError
          \<and> feature_weights (snd (record_interaction cfg e s u a t (Some r) c)) = feature_weights s)
       \<and> weights_ok (init_recommender cfg' e' rows)
       \<and> (weights_ok s' \<longrightarrow> weights_ok (snd (record_interaction cfg' e' s' u' a' t' r' c')))
       \<and> (weights_ok s' \<longrightarrow>
            weights_ok (snd (get_advanced_recommendations cfg' sem now s' u' role level ind goal q k)))"
proof -
  have fw: "feature_weights (snd (record_interaction cfg e s u a t (Some r) c)) =
              learn_features (learning_rate cfg) (real_of_int r / 5 - p / 20) fs (feature_weights s)"
    if "db e = DbOk"
    using assms that
    by (simp add: record_interaction_rated record_feedback_up maintenance_frame
          online_learning_weights add_interaction_frame)
  have step: "map_of (feature_weights (snd (record_interaction cfg e s u a t (Some r) c))) feat =
           (case map_of (feature_weights s) feat of
              None \<Rightarrow> None
            | Some w \<Rightarrow>
                (case map_of fs feat of
                   Some v \<Rightarrow>
                     if v \<noteq> 0
                     then Some (max (1 / 10)
                                 (min 10 (w + learning_rate cfg * ((real_of_int r / 5 - p / 20) * v))))
                     else Some w
                 | None \<Rightarrow> Some w))"
    if ok: "db e = DbOk"
    unfolding fw [OF ok] learn_features_map_of [OF assms(6)] clamp_weight_def ..
  have keys: "map fst (feature_weights (snd (record_interaction cfg e s u a t (Some r) c)))
           = map fst (feature_weights s)"
    if ok: "db e = DbOk"
    by (simp add: fw [OF ok] learn_features_keys)
  have down: "fst (record_interaction cfg e s u a t (Some r) c) = Some DatabaseError
          \<and> feature_weights (snd (record_interaction cfg e s u a t (Some r) c)) = feature_weights s"
    if "db e \<noteq> DbOk"
    using assms(1-4) that
    by (simp add: record_interaction_rated record_feedback_down add_interaction_frame)
  have inv: "weights_ok (init_recommender cfg' e' rows)"
    "weights_ok s' \<longrightarrow> weights_ok (snd (record_interaction cfg' e' s' u' a' t' r' c'))"
    "weights_ok s' \<longrightarrow>
       weights_ok (snd (get_advanced_recommendations cfg' sem now s' u' role level ind goal q k))"
    using init_weights_ok [of cfg' e' rows]
      record_interaction_weights_ok [of s' cfg' e' u' a' t' r' c']
      get_advanced_recommendations_weights [of cfg' sem now s' u' role level ind goal q k]
    by (simp_all add: weights_ok_def)
  show ?thesis
  proof (intro conjI impI)
    assume ok: "db e = DbOk"
    show "map_of (feature_weights (snd (record_interaction cfg e s u a t (Some r) c))) feat =
           (case map_of (feature_weights s) feat of
              None \<Rightarrow> None
            | Some w \<Rightarrow>
                (case map_of fs feat of
                   Some v \<Rightarrow>
                     if v \<noteq> 0
                     then Some (max (1 / 10)
                                 (min 10 (w + learning_rate cfg * ((real_of_int r / 5 - p / 20) * v))))
                     else Some w
                 | None \<Rightarrow> Some w))"
      by (rule step [OF ok])
    show "map fst (feature_weights (snd (record_interaction cfg e s u a t (Some r) c)))
           = map fst (feature_weights s)"
      by (rule keys [OF ok])
  next
    assume "db e \<noteq> DbOk"
    from down [OF this]
    show "fst (record_interaction cfg e s u a t (Some r) c) = Some DatabaseError"
      and "feature_weights (snd (record_interaction cfg e s u a t (Some r) c)) = feature_weights s"
      by simp_all
  next
    show "weights_ok (init_recommender cfg' e' rows)" by (rule inv(1))
  next
    assume "weights_ok s'"
    with inv(2) show "weights_ok (snd (record_interaction cfg' e' s' u' a' t' r' c'))" by simp
  next
    assume "weights_ok s'"
    with inv(3)
    show "weights_ok (snd (get_advanced_recommendations cfg' sem now s' u' role level ind goal q k))"
      by simp
  qed
qed

theorem online_learning_step_witness:
  "truthy (PyStr ''u1'') \<and> truthy (PyInt 1) \<and> db env_ok = DbOk
   \<and> distinct (map fst [(''semantic_similarity'', 1 / 2 :: real), (''content'', 7), (''role_match'', 0)])
   \<and> map_of (feature_weights (snd (record_interaction small_cfg env_ok fresh_state (PyStr ''u1'')
        (PyInt 1) ''rate'' (Some 5) flask_ctx))) ''semantic_similarity'' = Some (1601 / 400)
   \<and> weights_ok fresh_state
   \<and> weights_ok (snd (record_interaction small_cfg env_ok fresh_state (PyStr ''u1'')
        (PyInt 1) ''rate'' (Some 5) flask_ctx))"
proof -
  have h: "truthy (PyStr ''u1'')" "truthy (PyInt 1)" "(1::int) \<le> 5" "(5::int) \<le> 5"
    "flask_ctx = Some \<lparr>features = Some [(''semantic_similarity'', 1 / 2), (''content'', 7),
                                          (''role_match'', 0)],
                        predicted_score = Some 10\<rparr>"
    "distinct (map fst [(''semantic_similarity'', 1 / 2 :: real), (''content'', 7), (''role_match'', 0)])"
    by (simp_all add: flask_ctx_def)
  have ok: "db env_ok = DbOk" by (simp add: env_ok_def)
  have w: "weights_ok fresh_state"
    by (simp add: weights_ok_def fresh_state_eq init_weights_def weight_in_range_def)
  have lr: "learning_rate small_cfg = 1 / 100" by (simp add: small_cfg_def)
  have fw: "feature_weights fresh_state = init_weights" by (simp add: fresh_state_eq)
  show ?thesis
    using online_learning_step [OF h, where e = env_ok and cfg = small_cfg and s = fresh_state
        and t = "''rate''"
        and feat = "''semantic_similarity''" and s' = fresh_state and cfg' = small_cfg
        and e' = env_ok and u' = "PyStr ''u1''" and a' = "PyInt 1" and t' = "''rate''"
        and r' = "Some 5" and c' = flask_ctx] h w ok
    by (simp add: lr fw init_weights_def)
qed

text \<open>
  C7 as stated fails when the save fails: the call has a valid rating and a context that
  names \<open>semantic_similarity\<close> with the value 0.5, yet it ends with the database exception
  and the weight is still 4.
\<close>

theorem online_learning_save_failure_counterexample:
  "fst (record_interaction small_cfg env_db_down fresh_state (PyStr ''u1'') (PyInt 1) ''rate''
          (Some 5) flask_ctx) = Some DatabaseError
   \<and> map_of (feature_weights (snd (record_interaction small_cfg env_db_down fresh_state
          (PyStr ''u1'') (PyInt 1) ''rate'' (Some 5) flask_ctx))) ''semantic_similarity'' = Some 4"
proof -
  have "db env_db_down \<noteq> DbOk" by (simp add: env_db_down_def env_ok_def)
  then show ?thesis
    by (simp add: record_interaction_rated record_feedback_down add_interaction_frame
          fresh_state_eq init_weights_def)
qed

section \<open>Unrecognized interaction types\<close>

lemma dict_get_dict_add: "dict_get (dict_add d k x) k 0 = dict_get d k 0 + x"
  by (simp add: dict_get_def dict_add_def update_conv')

lemma map_of_fold_delete:
  "k \<notin> set ks \<Longrightarrow> map_of (fold AList.delete ks al) k = map_of al k"
  by (induction ks arbitrary: al) auto

lemma add_interaction_lookup:
  "map_of (user_interactions (add_interaction e s u a w)) u =
     Some \<lparr>items = dict_add (case map_of (user_interactions s) u of None \<Rightarrow> [] | Some d \<Rightarrow> items d) a w,
           last_activity = t_activity e\<rparr>"
  by (simp add: add_interaction_def Let_def update_conv' dict_get_def split: option.splits)

lemma add_interaction_stored:
  "stored_weight (add_interaction e s u a w) u a = stored_weight s u a + w"
  by (simp add: stored_weight_def add_interaction_lookup dict_get_dict_add)
     (simp add: dict_get_def split: option.splits)

lemma add_interaction_distinct:
  "distinct (map fst (user_interactions s)) \<Longrightarrow>
   distinct (map fst (user_interactions (add_interaction e s u a w)))"
  by (simp add: add_interaction_def Let_def distinct_update)

lemma current_user_not_old:
  assumes "distinct (map fst (user_interactions s))"
    and "t_cleanup e - user_ttl_days cfg * 86400000000 \<le> t_activity e"
  shows "u \<notin> set (old_users cfg e (user_interactions (add_interaction e s u a w)))"
proof
  let ?ui = "user_interactions (add_interaction e s u a w)"
  assume "u \<in> set (old_users cfg e ?ui)"
  then obtain d where d: "(u, d) \<in> set ?ui"
      and old: "last_activity d < t_cleanup e - user_ttl_days cfg * 86400000000"
    by (auto simp: old_users_def)
  from add_interaction_distinct [OF assms(1)] d have "map_of ?ui u = Some d"
    by simp
  then have "last_activity d = t_activity e"
    by (auto simp: add_interaction_lookup)
  with old assms(2) show False by simp
qed

lemma maintenance_stored:
  assumes "u \<notin> set (old_users cfg e (user_interactions s))"
  shows "stored_weight (maintenance cfg e s) u a = stored_weight s u a"
  using assms
  by (simp add: stored_weight_def maintenance_users cleanup_old_data_users map_of_fold_delete)

lemma interaction_weight_default:
  "t \<notin> set [''view'', ''click'', ''rate'', ''select''] \<Longrightarrow>
   interaction_weight t r =
     (case r of None \<Rightarrow> 1 / 10 | Some n \<Rightarrow> if n \<noteq> 0 then 1 / 10 * (real_of_int n / 5) else 1 / 10)"
  by (simp add: interaction_weight_def dict_get_def split: option.splits)

lemma map_of_fold_delete_if:
  "map_of (fold AList.delete ks al) k = (if k \<in> set ks then None else map_of al k)"
  by (induction ks arbitrary: al) (auto simp: delete_conv')

lemma current_user_old:
  assumes "t_activity e < t_cleanup e - user_ttl_days cfg * 86400000000"
  shows "u \<in> set (old_users cfg e (user_interactions (add_interaction e s u a w)))"
proof -
  let ?ui = "user_interactions (add_interaction e s u a w)"
  let ?d = "\<lparr>items = dict_add (case map_of (user_interactions s) u of None \<Rightarrow> []
                                | Some d \<Rightarrow> items d) a w,
             last_activity = t_activity e\<rparr>"
  have "(u, ?d) \<in> set ?ui"
    by (rule map_of_SomeD) (rule add_interaction_lookup)
  with assms have "(u, ?d) \<in> set (filter (\<lambda>(uid, d). last_activity d
        < t_cleanup e - user_ttl_days cfg * 86400000000) ?ui)"
    by simp
  then have "fst (u, ?d) \<in> fst ` set (filter (\<lambda>(uid, d). last_activity d
        < t_cleanup e - user_ttl_days cfg * 86400000000) ?ui)"
    by (rule imageI)
  then show ?thesis
    by (simp add: old_users_def)
qed

lemma maintenance_stored_if:
  "stored_weight (maintenance cfg e s) u a =
     (if int (length (user_interactions s)) mod 50 = 0
         \<and> u \<in> set (old_users cfg e (user_interactions s))
      then 0 else stored_weight s u a)"
  by (simp add: stored_weight_def maintenance_users cleanup_old_data_users map_of_fold_delete_if)

lemma record_interaction_outcome:
  assumes "truthy u" and "truthy a"
    and "r = None \<or> (\<exists>n. r = Some n \<and> 1 \<le> n \<and> n \<le> 5)"
  shows "fst (record_interaction cfg e s u a t r c) =
           (if r = None \<or> db e = DbOk then None else Some DatabaseError)"
proof (cases r)
  case None
  then show ?thesis using assms(1,2) by (simp add: record_interaction_def Let_def)
next
  case (Some n)
  with assms(3) have n: "1 \<le> n" "n \<le> 5" by auto
  show ?thesis
    by (cases "db e = DbOk")
       (simp_all add: Some record_interaction_rated [OF assms(1,2) n]
          record_feedback_up record_feedback_down)
qed

lemma record_interaction_stored:
  assumes "truthy u" and "truthy a"
    and "r = None \<or> (\<exists>n. r = Some n \<and> 1 \<le> n \<and> n \<le> 5)"
    and "distinct (map fst (user_interactions s))"
  shows "stored_weight (snd (record_interaction cfg e s u a t r c)) u a =
           (if (r = None \<or> db e = DbOk)
               \<and> int (length (user_interactions
                      (add_interaction e s u a (interaction_weight t r)))) mod 50 = 0
               \<and> t_activity e < t_cleanup e - user_ttl_days cfg * 86400000000
            then 0
            else stored_weight s u a + interaction_weight t r)"
proof -
  define w where "w = interaction_weight t r"
  define s1 where "s1 = add_interaction e s u a w"
  define cut where "cut = t_cleanup e - user_ttl_days cfg * 86400000000"
  have old: "u \<in> set (old_users cfg e (user_interactions s1)) \<longleftrightarrow> t_activity e < cut"
  proof (cases "t_activity e < cut")
    case True
    then show ?thesis
      using current_user_old [of e cfg u s a w] by (simp add: s1_def cut_def)
  next
    case False
    then have "t_cleanup e - user_ttl_days cfg * 86400000000 \<le> t_activity e"
      by (simp add: cut_def)
    from current_user_not_old [OF assms(4) this, of u a w] False show ?thesis
      by (simp add: s1_def)
  qed
  have s1w: "stored_weight s1 u a = stored_weight s u a + w"
    unfolding s1_def by (rule add_interaction_stored)
  have m: "stored_weight (maintenance cfg e x) u a =
             (if int (length (user_interactions s1)) mod 50 = 0 \<and> t_activity e < cut
              then 0 else stored_weight s u a + w)"
    if x: "user_interactions x = user_interactions s1" for x
  proof -
    have "stored_weight x u a = stored_weight s1 u a"
      by (simp add: stored_weight_def x)
    then show ?thesis
      unfolding maintenance_stored_if x old s1w by simp
  qed
  have noev: "stored_weight x u a = stored_weight s u a + w"
    if x: "user_interactions x = user_interactions s1" for x
    using s1w by (simp add: stored_weight_def x)
  show ?thesis
  proof (cases r)
    case None
    have "record_interaction cfg e s u a t None c =
            (None, maintenance cfg e (add_interaction e s u a (interaction_weight t None)))"
      using assms(1,2) by (simp add: record_interaction_def Let_def)
    then have "snd (record_interaction cfg e s u a t r c) = maintenance cfg e s1"
      by (simp add: None s1_def w_def)
    then show ?thesis
      using m [of s1] by (simp add: None s1_def w_def cut_def)
  next
    case (Some n)
    with assms(3) have n: "1 \<le> n" "n \<le> 5" by auto
    note ri = record_interaction_rated [OF assms(1,2) n, of cfg e s t c]
    show ?thesis
    proof (cases "db e = DbOk")
      case True
      define s2 where "s2 = snd (record_feedback cfg e s1 u a n c)"
      have ui: "user_interactions s2 = user_interactions s1"
        by (simp add: s2_def record_feedback_up [OF True] online_learning_frame)
      have "snd (record_interaction cfg e s u a t r c) = maintenance cfg e s2"
        by (simp add: Some ri record_feedback_up [OF True] s2_def s1_def w_def)
      then show ?thesis
        using m [OF ui] True by (simp add: Some s1_def w_def cut_def)
    next
      case False
      define s2 where "s2 = snd (record_feedback cfg e s1 u a n c)"
      have ui: "user_interactions s2 = user_interactions s1"
        by (simp add: s2_def record_feedback_down [OF False])
      have "snd (record_interaction cfg e s u a t r c) = s2"
        by (simp add: Some ri record_feedback_down [OF False] s2_def s1_def w_def)
      then show ?thesis
        using noev [OF ui] False by (simp add: Some w_def)
    qed
  qed
qed

text \<open>
  C10, as the code has it. A call with present ids, a rating that is absent or in 1..5 and
  an interaction type other than \<open>view\<close>, \<open>click\<close>, \<open>rate\<close>, \<open>select\<close> never fails
  validation, and it adds the default weight 0.1, times \<open>rating/5\<close> when a rating is given,
  to the (user, item) entry of the store (a dict, so its keys are distinct). The call
  returns normally exactly when no rating is given or the save succeeds; otherwise it ends
  with the database exception, after the accumulation. After the call the store holds the
  accumulated weight, unless the call returned, its clean-up pass ran (the number of
  tracked users is a multiple of 50) and the cut-off of that pass lies after the call's
  \<open>last_activity\<close>: then the user has been evicted again.
\<close>

theorem unknown_interaction_type:
  assumes "t \<notin> set [''view'', ''click'', ''rate'', ''select'']"
    and "truthy u" and "truthy a"
    and "r = None \<or> (\<exists>n. r = Some n \<and> 1 \<le> n \<and> n \<le> 5)"
    and "distinct (map fst (user_interactions s))"
  shows "(\<forall>msg. fst (record_interaction cfg e s u a t r c) \<noteq> Some (ValueError msg))
       \<and> fst (record_interaction cfg e s u a t r c) =
           (if r = None \<or> db e = DbOk then None else Some DatabaseError)
       \<and> stored_weight (add_interaction e s u a (interaction_weight t r)) u a =
           stored_weight s u a
           + 1 / 10 * (case r of None \<Rightarrow> 1 | Some n \<Rightarrow> real_of_int n / 5)
       \<and> stored_weight (snd (record_interaction cfg e s u a t r c)) u a =
           (if (r = None \<or> db e = DbOk)
               \<and> int (length (user_interactions
                      (add_interaction e s u a (interaction_weight t r)))) mod 50 = 0
               \<and> t_activity e < t_cleanup e - user_ttl_days cfg * 86400000000
            then 0
            else stored_weight s u a
                 + 1 / 10 * (case r of None \<Rightarrow> 1 | Some n \<Rightarrow> real_of_int n / 5))"
proof -
  have w: "interaction_weight t r = 1 / 10 * (case r of None \<Rightarrow> 1 | Some n \<Rightarrow> real_of_int n / 5)"
    using assms(4) by (auto simp: interaction_weight_default [OF assms(1)])
  have out: "fst (record_interaction cfg e s u a t r c) =
               (if r = None \<or> db e = DbOk then None else Some DatabaseError)"
    by (rule record_interaction_outcome [OF assms(2,3,4)])
  have nov: "\<forall>msg. fst (record_interaction cfg e s u a t r c) \<noteq> Some (ValueError msg)"
    unfolding out by simp
  have acc: "stored_weight (add_interaction e s u a (interaction_weight t r)) u a =
               stored_weight s u a + interaction_weight t r"
    by (rule add_interaction_stored)
  note fin = record_interaction_stored [OF assms(2,3,4,5), of cfg e t c]
  show ?thesis
  proof (intro conjI)
    show "\<forall>msg. fst (record_interaction cfg e s u a t r c) \<noteq> Some (ValueError msg)"
      by (rule nov)
    show "fst (record_interaction cfg e s u a t r c) =
            (if r = None \<or> db e = DbOk then None else Some DatabaseError)"
      by (rule out)
    show "stored_weight (add_interaction e s u a (interaction_weight t r)) u a =
            stored_weight s u a
            + 1 / 10 * (case r of None \<Rightarrow> 1 | Some n \<Rightarrow> real_of_int n / 5)"
      using acc by (simp only: w)
    show "stored_weight (snd (record_interaction cfg e s u a t r c)) u a =
           (if (r = None \<or> db e = DbOk)
               \<and> int (length (user_interactions
                      (add_interaction e s u a (interaction_weight t r)))) mod 50 = 0
               \<and> t_activity e < t_cleanup e - user_ttl_days cfg * 86400000000
            then 0
            else stored_weight s u a
                 + 1 / 10 * (case r of None \<Rightarrow> 1 | Some n \<Rightarrow> real_of_int n / 5))"
      using fin by (simp only: w)
  qed
qed

theorem unknown_interaction_type_witness:
  "''hover'' \<notin> set [''view'', ''click'', ''rate'', ''select'']
   \<and> truthy (PyStr ''u1'') \<and> truthy (PyInt 1)
   \<and> distinct (map fst (user_interactions after_first))
   \<and> stored_weight after_first (PyStr ''u1'') (PyInt 1) = 1
   \<and> fst (record_interaction small_cfg env_ok after_first (PyStr ''u1'') (PyInt 1) ''hover''
          (Some 4) None) = None
   \<and> stored_weight (snd (record_interaction small_cfg env_ok after_first (PyStr ''u1'') (PyInt 1)
          ''hover'' (Some 4) None)) (PyStr ''u1'') (PyInt 1) = 27 / 25"
proof -
  have h: "''hover'' \<notin> set [''view'', ''click'', ''rate'', ''select'']"
    "truthy (PyStr ''u1'')" "truthy (PyInt 1)"
    "Some (4::int) = None \<or> (\<exists>n. Some (4::int) = Some n \<and> 1 \<le> n \<and> n \<le> 5)"
    "distinct (map fst (user_interactions after_first))"
    by (simp_all add: after_first_eq)
  have sw: "stored_weight after_first (PyStr ''u1'') (PyInt 1) = 1"
    by (simp add: stored_weight_def after_first_eq dict_get_def)
  have ok: "db env_ok = DbOk" by (simp add: env_ok_def)
  have len: "length (user_interactions (add_interaction env_ok after_first (PyStr ''u1'') (PyInt 1) x)) = 1"
    for x
    by (simp add: add_interaction_def after_first_eq Let_def)
  show ?thesis
    using unknown_interaction_type [OF h, of small_cfg env_ok None] h sw ok
    by (simp add: len)
qed

lemma crowd_evicted:
  "stored_weight (snd (record_interaction cfg_ttl0 env_ok crowd_state (PyStr ''u50'') (PyInt 1)
     ''hover'' None None)) (PyStr ''u50'') (PyInt 1) = 0"
proof -
  have h: "truthy (PyStr ''u50'')" "truthy (PyInt 1)"
    "(None :: int option) = None \<or> (\<exists>n. (None :: int option) = Some n \<and> 1 \<le> n \<and> n \<le> 5)"
    "distinct (map fst (user_interactions crowd_state))"
    by (simp_all add: crowd_state_def distinct_map inj_on_def)
  have t: "t_activity env_ok < t_cleanup env_ok - user_ttl_days cfg_ttl0 * 86400000000"
    by (simp add: env_ok_def cfg_ttl0_def small_cfg_def)
  show ?thesis
    using record_interaction_stored [OF h, of cfg_ttl0 env_ok "''hover''" None] t
    by (simp add: crowd_users)
qed

text \<open>
  C10 as stated fails at two inputs: with a rating and the database down the call ends with
  the database exception; and with a TTL of zero days and 50 tracked users the clean-up pass
  of the same call evicts the user, so the store holds no weight for the pair afterwards.
\<close>

theorem unknown_interaction_type_counterexample:
  "fst (record_interaction small_cfg env_db_down after_first (PyStr ''u1'') (PyInt 1) ''hover''
          (Some 4) None) = Some DatabaseError
   \<and> user_ttl_days cfg_ttl0 = 0
   \<and> stored_weight (snd (record_interaction cfg_ttl0 env_ok crowd_state (PyStr ''u50'') (PyInt 1)
          ''hover'' None None)) (PyStr ''u50'') (PyInt 1) = 0"
proof -
  have h: "truthy (PyStr ''u1'')" "truthy (PyInt 1)"
    "Some (4::int) = None \<or> (\<exists>n. Some (4::int) = Some n \<and> 1 \<le> n \<and> n \<le> 5)"
    by simp_all
  have "db env_db_down \<noteq> DbOk" by (simp add: env_db_down_def env_ok_def)
  then have "fst (record_interaction small_cfg env_db_down after_first (PyStr ''u1'') (PyInt 1)
          ''hover'' (Some 4) None) = Some DatabaseError"
    by (simp add: record_interaction_outcome [OF h])
  moreover have "user_ttl_days cfg_ttl0 = 0" by (simp add: cfg_ttl0_def)
  ultimately show ?thesis using crowd_evicted by simp
qed

section \<open>Normalized content similarity\<close>

lemma max_nonneg: "xs \<noteq> [] \<Longrightarrow> \<forall>x\<in>set xs. (0::real) \<le> x \<Longrightarrow> 0 \<le> Max (set xs)"
  by (cases xs) (auto simp: Max_ge_iff)

lemma Max_scaled:
  assumes "xs \<noteq> []" and "(0::real) < c"
  shows "Max (set (map (\<lambda>x. x / c) xs)) = Max (set xs) / c"
proof -
  have "mono (\<lambda>x::real. x / c)"
    using assms(2) by (simp add: mono_def divide_right_mono)
  from mono_Max_commute [OF this, of "set xs"] assms(1)
  show ?thesis by simp
qed

text \<open>
  C4, as the code has it. \<open>get_advanced_recommendations\<close> divides the raw cosine
  similarities by their maximum plus \<open>1e-10\<close>. For a non-empty catalog and non-negative raw
  similarities (cosines of TF-IDF vectors), every normalized score lies in [0, 1), and the
  largest is \<open>m / (m + 1e-10)\<close> for the largest raw similarity \<open>m\<close>: below 1, and
  positive whenever some raw similarity is nonzero.
\<close>

theorem normalized_scores_below_one:
  assumes "sems \<noteq> []" and "\<forall>x\<in>set sems. 0 \<le> x"
  shows "\<exists>ns. normalize_scores sems = Inr ns
           \<and> length ns = length sems
           \<and> (\<forall>y\<in>set ns. 0 \<le> y \<and> y < 1)
           \<and> Max (set ns) = Max (set sems) / (Max (set sems) + 1 / 10 ^ 10)
           \<and> Max (set ns) < 1
           \<and> ((\<exists>x\<in>set sems. x \<noteq> 0) \<longrightarrow> 0 < Max (set ns))"
proof -
  let ?m = "Max (set sems)"
  let ?c = "?m + 1 / 10 ^ 10"
  let ?ns = "map (\<lambda>x. x / ?c) sems"
  have m0: "0 \<le> ?m" by (rule max_nonneg [OF assms])
  then have c0: "0 < ?c" by simp
  have le: "x \<le> ?m" if "x \<in> set sems" for x
    using that by simp
  have rng: "0 \<le> y \<and> y < 1" if "y \<in> set ?ns" for y
  proof -
    from that obtain x where x: "x \<in> set sems" and y: "y = x / ?c" by auto
    have "x < ?c" using le [OF x] by simp
    with c0 assms(2) x show ?thesis by (simp add: y)
  qed
  have mx: "Max (set ?ns) = ?m / ?c"
    by (rule Max_scaled [OF assms(1) c0])
  have lt: "?m / ?c < 1" using c0 by simp
  have pos: "0 < ?m / ?c" if "\<exists>x\<in>set sems. x \<noteq> 0"
  proof -
    from that obtain x where x: "x \<in> set sems" "x \<noteq> 0" by auto
    with assms(2) have "0 < x" by force
    with le [OF x(1)] have "0 < ?m" by linarith
    with c0 show ?thesis by simp
  qed
  have "normalize_scores sems = Inr ?ns"
    using assms(1) by (simp add: normalize_scores_def)
  with rng mx lt pos show ?thesis
    by (intro exI [of _ ?ns]) (simp only: length_map, blast)
qed

theorem normalized_scores_below_one_witness:
  "[1, 1 / 2 :: real] \<noteq> [] \<and> list_all (\<lambda>x. 0 \<le> x) [1, 1 / 2 :: real]
   \<and> (\<exists>ns. normalize_scores [1, 1 / 2] = Inr ns \<and> length ns = 2
          \<and> Max (set ns) = 10000000000 / 10000000001 \<and> Max (set ns) < 1 \<and> 0 < Max (set ns))"
  using normalized_scores_below_one [of "[1, 1 / 2]"]
  by auto

text \<open>
  C4 as stated fails: for the raw similarities 1 and 0.5 the largest normalized score is
  10000000000/10000000001, not 1.
\<close>

theorem normalized_scores_counterexample:
  "normalize_scores [1, 1 / 2] = Inr [10000000000 / 10000000001, 5000000000 / 10000000001]
   \<and> Max (set [10000000000 / 10000000001, 5000000000 / 10000000001 :: real]) \<noteq> 1"
  by (simp add: normalize_scores_def)

section \<open>The text fed to the vectorizer\<close>












section \<open>Ranking\<close>

lemma score_item_fields:
  "rec_assessment (score_item s n role level ind goal collab ai) = fst ai"
  "is_new_user (score_item s n role level ind goal collab ai) = n"
  "sb_collaborative (breakdown (score_item s n role level ind goal collab ai))
     = py_round2 (dict_get collab (a_id (fst ai)) 0 * (7 / 2))"
  unfolding score_item_def Let_def by (simp_all split del: if_split)

lemma touch_profile_frame:
  "user_interactions (touch_profile now s u) = user_interactions s"
  "item_similarities (touch_profile now s u) = item_similarities s"
  "feature_weights (touch_profile now s u) = feature_weights s"
  "feedback_data (touch_profile now s u) = feedback_data s"
  "popular_items (touch_profile now s u) = popular_items s"
  by (simp_all add: touch_profile_def)

lemma score_all_catalog:
  "length sems = length (assessments cfg) \<Longrightarrow>
   map rec_assessment (score_all cfg s u role level ind goal sems) = assessments cfg"
  by (simp add: score_all_def score_item_fields comp_def map_fst_zip)

lemma scored_results_returns:
  "assessments cfg \<noteq> [] \<Longrightarrow>
   \<exists>sems. length sems = length (assessments cfg)
     \<and> scored_results cfg sem s u role level ind goal q =
         Inr (score_all cfg s u role level ind goal sems)"
proof -
  assume ne: "assessments cfg \<noteq> []"
  define raw where "raw = map (sem (if q \<noteq> [] then q
      else role @ '' '' @ level @ '' '' @ ind @ '' '' @ goal)) [0..<length (assessments cfg)]"
  define sems where "sems = map (\<lambda>x. x / (Max (set raw) + 1 / 10 ^ 10)) raw"
  have "raw \<noteq> []" using ne by (simp add: raw_def)
  then have "normalize_scores raw = Inr sems"
    by (simp add: normalize_scores_def sems_def)
  then have "scored_results cfg sem s u role level ind goal q =
      Inr (score_all cfg s u role level ind goal sems)"
    by (simp add: scored_results_def Let_def raw_def)
  moreover have "length sems = length (assessments cfg)"
    by (simp add: sems_def raw_def)
  ultimately show ?thesis by blast
qed

lemma sorted_sort_desc: "sorted_wrt (\<lambda>x y. f y \<le> f x) (sort_desc f xs)"
proof -
  have "sorted (map (\<lambda>x. - f x) (sort_key (\<lambda>x. - f x) xs))"
    by (rule sorted_sort_key)
  then show ?thesis
    by (simp add: sort_desc_def sorted_map)
qed

lemma sort_desc_stable:
  "filter (\<lambda>y. f y = v) (sort_desc f xs) = filter (\<lambda>y. f y = v) xs"
proof -
  have "filter (\<lambda>y. - f y = - v) (sort_key (\<lambda>x. - f x) xs) = filter (\<lambda>y. - f y = - v) xs"
    by (rule sort_key_stable)
  then show ?thesis by (simp add: sort_desc_def)
qed

lemma sort_desc_set: "set (sort_desc f xs) = set xs" "length (sort_desc f xs) = length xs"
  by (simp_all add: sort_desc_def)

lemma py_slice_to_take: "\<exists>n. py_slice_to k xs = take n xs"
  by (auto simp: py_slice_to_def)

lemma filter_take_prefix: "prefix (filter P (take n xs)) (filter P xs)"
proof -
  have "filter P xs = filter P (take n xs) @ filter P (drop n xs)"
    by (metis append_take_drop_id filter_append)
  then show ?thesis by (simp add: prefix_def)
qed

lemma py_slice_to_length: "0 \<le> k \<Longrightarrow> int (length (py_slice_to k xs)) \<le> k"
  by (simp add: py_slice_to_def)

lemma gar_result:
  assumes "assessments cfg \<noteq> []"
  shows "\<exists>results.
           scored_results cfg sem (touch_profile now s u) u role level ind goal q = Inr results
         \<and> map rec_assessment results = assessments cfg
         \<and> fst (get_advanced_recommendations cfg sem now s u role level ind goal q k)
             = Inr (py_slice_to k (sort_desc total_score results))"
proof -
  from scored_results_returns [OF assms, of sem "touch_profile now s u" u role level ind goal q]
  obtain sems where len: "length sems = length (assessments cfg)"
    and sr: "scored_results cfg sem (touch_profile now s u) u role level ind goal q =
               Inr (score_all cfg (touch_profile now s u) u role level ind goal sems)"
    by blast
  show ?thesis
    using sr score_all_catalog [OF len]
    by (simp add: get_advanced_recommendations_def)
qed

lemma gar_length:
  assumes "assessments cfg \<noteq> []"
  shows "map_sum id length
           (fst (get_advanced_recommendations cfg sem now s u role level ind goal q k))
         = Inr (if k < 0 then length (assessments cfg) - nat (- k)
                else min (nat k) (length (assessments cfg)))"
proof -
  from gar_result [OF assms, of sem now s u role level ind goal q k]
  obtain results where cat: "map rec_assessment results = assessments cfg"
    and r: "fst (get_advanced_recommendations cfg sem now s u role level ind goal q k)
             = Inr (py_slice_to k (sort_desc total_score results))"
    by blast
  from cat have "length results = length (assessments cfg)"
    by (metis length_map)
  then show ?thesis
    by (simp add: r py_slice_to_def sort_desc_set min_def)
qed

lemma collab_fresh:
  "collaborative_scores small_cfg (touch_profile 2000 fresh_state (PyStr ''u9'')) (PyStr ''u9'')
     = [(PyInt 1, 0), (PyInt 2, 0)]"
  by (simp add: collaborative_scores_def touch_profile_frame fresh_state_eq small_cfg_def
        item_a_def item_b_def)

lemma totals_manager:
  "total_score (score_item (touch_profile 2000 fresh_state (PyStr ''u9'')) True ''Manager'' [] [] []
      [(PyInt 1, 0), (PyInt 2, 0)] (item_a, 5000000000 / 5000000001)) = 6"
  "total_score (score_item (touch_profile 2000 fresh_state (PyStr ''u9'')) True ''Manager'' [] [] []
      [(PyInt 1, 0), (PyInt 2, 0)] (item_b, 5000000000 / 5000000001)) = 12"
  unfolding score_item_def Let_def
  by (simp_all add: touch_profile_frame fresh_state_eq item_a_def item_b_def lower_def
      lower_char_def dict_get_def init_weights_def py_slice_from_def py_round2_def
      round_half_even_def split del: if_split)

lemma ranking_manager:
  "map_sum id (map (\<lambda>r. (a_id (rec_assessment r), total_score r)))
     (fst (get_advanced_recommendations small_cfg flat_cosine 2000 fresh_state (PyStr ''u9'')
             ''Manager'' [] [] [] [] 1)) = Inr [(PyInt 2, 12)]"
proof -
  have ui: "map_of (user_interactions (touch_profile 2000 fresh_state (PyStr ''u9''))) (PyStr ''u9'') = None"
    by (simp add: touch_profile_frame fresh_state_eq)
  have a: "assessments small_cfg = [item_a, item_b]" by (simp add: small_cfg_def)
  have sr: "scored_results small_cfg flat_cosine (touch_profile 2000 fresh_state (PyStr ''u9''))
              (PyStr ''u9'') ''Manager'' [] [] [] [] =
            Inr [score_item (touch_profile 2000 fresh_state (PyStr ''u9'')) True ''Manager'' [] [] []
                   [(PyInt 1, 0), (PyInt 2, 0)] (item_a, 5000000000 / 5000000001),
                 score_item (touch_profile 2000 fresh_state (PyStr ''u9'')) True ''Manager'' [] [] []
                   [(PyInt 1, 0), (PyInt 2, 0)] (item_b, 5000000000 / 5000000001)]"
    by (simp add: scored_results_def a normalize_scores_def flat_cosine_def score_all_def ui
          collab_fresh)
  show ?thesis
    by (simp add: get_advanced_recommendations_def sr sort_desc_def totals_manager
          py_slice_to_def score_item_fields)
       (simp add: item_b_def)
qed

text \<open>
  C9, as the code has it. Over a non-empty catalog a scoring request returns a list; for
  \<open>top_k = k\<close> with \<open>k\<close> at least 0 it has at most \<open>k\<close> entries; it is sorted by
  non-increasing \<open>total_score\<close> (the rounded total the entries carry); and for every score
  the returned entries with that score are an initial part of the catalog-ordered entries
  with that score, so ties keep the catalog order. \<open>results\<close> is the list before sorting,
  one entry per catalog item in catalog order.
\<close>

theorem ranking_sorted_stable:
  assumes "assessments cfg \<noteq> []"
  shows "\<exists>results rs.
           scored_results cfg sem (touch_profile now s u) u role level ind goal q = Inr results
         \<and> map rec_assessment results = assessments cfg
         \<and> fst (get_advanced_recommendations cfg sem now s u role level ind goal q k) = Inr rs
         \<and> (0 \<le> k \<longrightarrow> int (length rs) \<le> k)
         \<and> length rs \<le> length (assessments cfg)
         \<and> set rs \<subseteq> set results
         \<and> sorted_wrt (\<lambda>x y. total_score y \<le> total_score x) rs
         \<and> (\<forall>v. prefix (filter (\<lambda>r. total_score r = v) rs)
                        (filter (\<lambda>r. total_score r = v) results))"
proof -
  from gar_result [OF assms, of sem now s u role level ind goal q k]
  obtain results where sr:
      "scored_results cfg sem (touch_profile now s u) u role level ind goal q = Inr results"
    and cat: "map rec_assessment results = assessments cfg"
    and r: "fst (get_advanced_recommendations cfg sem now s u role level ind goal q k)
             = Inr (py_slice_to k (sort_desc total_score results))"
    by blast
  let ?sorted = "sort_desc total_score results"
  let ?rs = "py_slice_to k ?sorted"
  obtain n where n: "?rs = take n ?sorted"
    using py_slice_to_take by blast
  have len: "length results = length (assessments cfg)"
    using cat by (metis length_map)
  have 1: "0 \<le> k \<longrightarrow> int (length ?rs) \<le> k"
    by (simp add: py_slice_to_length)
  have 2: "length ?rs \<le> length (assessments cfg)"
    by (simp add: n sort_desc_set len)
  have 3: "set ?rs \<subseteq> set results"
    using set_take_subset [of n ?sorted] by (simp add: n sort_desc_set)
  have 4: "sorted_wrt (\<lambda>x y. total_score y \<le> total_score x) ?rs"
    unfolding n by (rule sorted_wrt_take [OF sorted_sort_desc])
  have 5: "prefix (filter (\<lambda>r. total_score r = v) ?rs)
                  (filter (\<lambda>r. total_score r = v) results)" for v
    using filter_take_prefix [of "\<lambda>r. total_score r = v" n ?sorted]
    by (simp add: n sort_desc_stable)
  from sr cat r 1 2 3 4 5 show ?thesis by blast
qed

theorem ranking_sorted_stable_witness:
  "assessments small_cfg \<noteq> []
   \<and> (\<exists>rs. fst (get_advanced_recommendations small_cfg flat_cosine 2000 fresh_state (PyStr ''u9'')
                  ''Manager'' [] [] [] [] 1) = Inr rs
          \<and> int (length rs) \<le> 1
          \<and> sorted_wrt (\<lambda>x y. total_score y \<le> total_score x) rs
          \<and> map (\<lambda>r. (a_id (rec_assessment r), total_score r)) rs = [(PyInt 2, 12)])"
proof -
  have ne: "assessments small_cfg \<noteq> []" by (simp add: small_cfg_def)
  from ranking_sorted_stable [OF ne, of flat_cosine 2000 fresh_state "PyStr ''u9''" "''Manager''"
         "[]" "[]" "[]" "[]" 1]
  obtain rs where r1:
    "fst (get_advanced_recommendations small_cfg flat_cosine 2000 fresh_state (PyStr ''u9'')
            ''Manager'' [] [] [] [] 1) = Inr rs"
    and r2: "(0::int) \<le> 1 \<longrightarrow> int (length rs) \<le> 1"
    and r3: "sorted_wrt (\<lambda>x y. total_score y \<le> total_score x) rs"
    by blast
  from r2 have r2': "int (length rs) \<le> 1" by simp
  have "map_sum id (map (\<lambda>r. (a_id (rec_assessment r), total_score r)))
          (Inr rs :: exn + recommendation list) = Inr [(PyInt 2, 12)]"
    using ranking_manager by (simp only: r1)
  then have r4: "map (\<lambda>r. (a_id (rec_assessment r), total_score r)) rs = [(PyInt 2, 12)]"
    by simp
  show ?thesis
  proof (intro conjI exI)
    show "assessments small_cfg \<noteq> []" by (fact ne)
    show "fst (get_advanced_recommendations small_cfg flat_cosine 2000 fresh_state (PyStr ''u9'')
            ''Manager'' [] [] [] [] 1) = Inr rs" by (fact r1)
    show "int (length rs) \<le> 1" by (fact r2')
    show "sorted_wrt (\<lambda>x y. total_score y \<le> total_score x) rs" by (fact r3)
    show "map (\<lambda>r. (a_id (rec_assessment r), total_score r)) rs = [(PyInt 2, 12)]" by (fact r4)
  qed
qed

text \<open>
  C9 as stated fails for a negative \<open>top_k\<close>: the slice \<open>results[:-1]\<close> drops the last
  entry only, so over a catalog of two items \<open>top_k = -1\<close> returns one entry.
\<close>

theorem ranking_negative_top_k_counterexample:
  "map_sum id length
     (fst (get_advanced_recommendations small_cfg flat_cosine 2000 fresh_state (PyStr ''u9'')
             ''Developer'' [] [] [] [] (- 1))) = Inr (1::nat)"
  using gar_length [of small_cfg flat_cosine 2000 fresh_state "PyStr ''u9''" "''Developer''"
          "[]" "[]" "[]" "[]" "- 1"]
  by (simp add: small_cfg_def)

section \<open>Collaborative score of a new user\<close>

lemma fold_zero_lookup:
  "map_of (fold (\<lambda>a c. AList.update (a_id a) (0::real) c) as acc) k =
     (if k \<in> a_id ` set as then Some 0 else map_of acc k)"
  by (induction as arbitrary: acc) (auto simp: update_conv')

lemma fold_zero_all:
  "list_all (\<lambda>kv. snd kv = (0::real)) acc \<Longrightarrow>
   list_all (\<lambda>kv. snd kv = 0) (fold (\<lambda>a c. AList.update (a_id a) 0 c) as acc)"
proof (induction as arbitrary: acc)
  case Nil
  then show ?case by simp
next
  case (Cons a as)
  have "list_all (\<lambda>kv. snd kv = (0::real)) (AList.update (a_id a) 0 acc)"
    using Cons.prems by (induction acc) auto
  then show ?case by (simp add: Cons.IH)
qed

lemma dict_get_all_zero:
  "list_all (\<lambda>kv. snd kv = (0::real)) d \<Longrightarrow> dict_get d k 0 = 0"
  by (induction d) (auto simp: dict_get_def)

lemma py_round2_zero: "py_round2 0 = 0"
  by (simp add: py_round2_def round_half_even_def)

lemma score_all_new_user:
  assumes "map_of (user_interactions s) u = None"
  shows "list_all (\<lambda>r. sb_collaborative (breakdown r) = 0 \<and> is_new_user r)
           (score_all cfg s u role level ind goal sems)"
proof -
  have z: "list_all (\<lambda>kv. snd kv = 0) (collaborative_scores cfg s u)"
    using assms by (simp add: collaborative_scores_def fold_zero_all)
  show ?thesis
    using assms
    by (simp add: score_all_def list_all_iff score_item_fields dict_get_all_zero [OF z]
          py_round2_zero)
qed

lemma gar_inversion:
  assumes "fst (get_advanced_recommendations cfg sem now s u role level ind goal q k) = Inr rs"
  shows "\<exists>sems. rs = py_slice_to k (sort_desc total_score
                    (score_all cfg (touch_profile now s u) u role level ind goal sems))"
proof (cases "normalize_scores (map (sem (if q \<noteq> [] then q
          else role @ '' '' @ level @ '' '' @ ind @ '' '' @ goal)) [0..<length (assessments cfg)])")
  case (Inl ex)
  with assms show ?thesis
    by (simp add: get_advanced_recommendations_def scored_results_def Let_def)
next
  case (Inr sems)
  with assms have "rs = py_slice_to k (sort_desc total_score
                    (score_all cfg (touch_profile now s u) u role level ind goal sems))"
    by (simp add: get_advanced_recommendations_def scored_results_def Let_def)
  then show ?thesis ..
qed

lemma list_all_py_slice_to: "list_all P xs \<Longrightarrow> list_all P (py_slice_to k xs)"
  using set_take_subset by (fastforce simp: py_slice_to_def list_all_iff)

lemma list_all_sort_desc: "list_all P xs \<Longrightarrow> list_all P (sort_desc f xs)"
  by (simp add: list_all_iff sort_desc_set)

text \<open>
  C8. For a user who is absent from the interaction store, the collaborative score of
  every catalog item is 0: every entry of the table \<open>collab\<close> is 0, and every returned
  recommendation carries the collaborative contribution 0 and the flag \<open>is_new_user\<close>.
\<close>

theorem new_user_collaborative_zero:
  assumes "map_of (user_interactions s) u = None"
  shows "(\<forall>a\<in>set (assessments cfg). map_of (collaborative_scores cfg s u) (a_id a) = Some 0)
       \<and> list_all (\<lambda>kv. snd kv = 0) (collaborative_scores cfg s u)
       \<and> (\<forall>rs. fst (get_advanced_recommendations cfg sem now s u role level ind goal q k) = Inr rs
             \<longrightarrow> list_all (\<lambda>r. sb_collaborative (breakdown r) = 0 \<and> is_new_user r) rs)"
proof (intro conjI allI impI)
  show "\<forall>a\<in>set (assessments cfg). map_of (collaborative_scores cfg s u) (a_id a) = Some 0"
    using assms by (simp add: collaborative_scores_def fold_zero_lookup)
  show "list_all (\<lambda>kv. snd kv = 0) (collaborative_scores cfg s u)"
    using assms by (simp add: collaborative_scores_def fold_zero_all)
  fix rs
  assume "fst (get_advanced_recommendations cfg sem now s u role level ind goal q k) = Inr rs"
  from gar_inversion [OF this] obtain sems where
    rs: "rs = py_slice_to k (sort_desc total_score
               (score_all cfg (touch_profile now s u) u role level ind goal sems))" ..
  have "map_of (user_interactions (touch_profile now s u)) u = None"
    using assms by (simp add: touch_profile_frame)
  from score_all_new_user [OF this]
  show "list_all (\<lambda>r. sb_collaborative (breakdown r) = 0 \<and> is_new_user r) rs"
    unfolding rs by (intro list_all_py_slice_to list_all_sort_desc)
qed

theorem new_user_collaborative_zero_witness:
  "map_of (user_interactions fresh_state) (PyStr ''u9'') = None
   \<and> map_of (collaborative_scores small_cfg fresh_state (PyStr ''u9'')) (PyInt 1) = Some 0
   \<and> map_of (collaborative_scores small_cfg fresh_state (PyStr ''u9'')) (PyInt 2) = Some 0
   \<and> (\<exists>rs. fst (get_advanced_recommendations small_cfg flat_cosine 2000 fresh_state (PyStr ''u9'')
                  ''Manager'' [] [] [] [] 1) = Inr rs
          \<and> length rs = 1
          \<and> list_all (\<lambda>r. sb_collaborative (breakdown r) = 0 \<and> is_new_user r) rs)"
proof -
  have h: "map_of (user_interactions fresh_state) (PyStr ''u9'') = None"
    by (simp add: fresh_state_eq)
  note w = new_user_collaborative_zero [OF h, of small_cfg flat_cosine 2000 "''Manager''"
             "[]" "[]" "[]" "[]" 1]
  have a: "item_a \<in> set (assessments small_cfg)" "item_b \<in> set (assessments small_cfg)"
    by (simp_all add: small_cfg_def)
  have ids: "a_id item_a = PyInt 1" "a_id item_b = PyInt 2"
    by (simp_all add: item_a_def item_b_def)
  from w a(1) have c1: "map_of (collaborative_scores small_cfg fresh_state (PyStr ''u9'')) (a_id item_a) = Some 0"
    by blast
  from w a(2) have c2: "map_of (collaborative_scores small_cfg fresh_state (PyStr ''u9'')) (a_id item_b) = Some 0"
    by blast
  obtain rs where r1:
    "fst (get_advanced_recommendations small_cfg flat_cosine 2000 fresh_state (PyStr ''u9'')
            ''Manager'' [] [] [] [] 1) = (Inr rs :: exn + recommendation list)"
    using ranking_manager
    by (cases "fst (get_advanced_recommendations small_cfg flat_cosine 2000 fresh_state
                      (PyStr ''u9'') ''Manager'' [] [] [] [] 1)") simp_all
  have "map_sum id (map (\<lambda>r. (a_id (rec_assessment r), total_score r)))
          (Inr rs :: exn + recommendation list) = Inr [(PyInt 2, 12)]"
    using ranking_manager by (simp only: r1)
  then have "length (map (\<lambda>r. (a_id (rec_assessment r), total_score r)) rs) = 1"
    by simp
  then have r2: "length rs = 1" by simp
  from w r1 have r3: "list_all (\<lambda>r. sb_collaborative (breakdown r) = 0 \<and> is_new_user r) rs"
    by blast
  show ?thesis
  proof (intro conjI exI)
    show "map_of (user_interactions fresh_state) (PyStr ''u9'') = None" by (fact h)
    show "map_of (collaborative_scores small_cfg fresh_state (PyStr ''u9'')) (PyInt 1) = Some 0"
      using c1 by (simp only: ids)
    show "map_of (collaborative_scores small_cfg fresh_state (PyStr ''u9'')) (PyInt 2) = Some 0"
      using c2 by (simp only: ids)
    show "fst (get_advanced_recommendations small_cfg flat_cosine 2000 fresh_state (PyStr ''u9'')
                  ''Manager'' [] [] [] [] 1) = Inr rs" by (fact r1)
    show "length rs = 1" by (fact r2)
    show "list_all (\<lambda>r. sb_collaborative (breakdown r) = 0 \<and> is_new_user r) rs" by (fact r3)
  qed
qed

section \<open>The item-item similarity cache\<close>

lemma neighbours_entry_ok:
  assumes "distinct its" and "i < length its"
  shows "neighbours_ok (its ! i, neighbours sims its i)"
proof -
  let ?cands = "map (\<lambda>j. (its ! j, sims i j)) (filter (\<lambda>j. i \<noteq> j) [0..<length its])"
  have "its ! i \<notin> fst ` set ?cands"
    using assms by (auto simp: nth_eq_iff_index_eq)
  moreover have "set (take 20 (sort_desc snd ?cands)) \<subseteq> set ?cands"
    using set_take_subset [of 20 "sort_desc snd ?cands"] by (simp add: sort_desc_set)
  ultimately have "its ! i \<notin> fst ` set (neighbours sims its i)"
    unfolding neighbours_def by blast
  moreover have "sorted_wrt (\<lambda>x y. snd y \<le> snd x) (neighbours sims its i)"
    unfolding neighbours_def by (rule sorted_wrt_take [OF sorted_sort_desc])
  moreover have "length (neighbours sims its i) \<le> 20"
    by (simp add: neighbours_def)
  ultimately show ?thesis
    by (simp add: neighbours_ok_def)
qed

lemma update_entry_ok:
  "list_all neighbours_ok cache \<Longrightarrow> neighbours_ok (k, v) \<Longrightarrow>
   list_all neighbours_ok (AList.update k v cache)"
  by (induction cache) auto

lemma fold_entries_ok:
  assumes "distinct its" and "\<forall>i\<in>set idx. i < length its" and "list_all neighbours_ok cache"
  shows "list_all neighbours_ok
           (fold (\<lambda>i cache. AList.update (its ! i) (neighbours sims its i) cache) idx cache)"
  using assms(2,3)
proof (induction idx arbitrary: cache)
  case Nil
  then show ?case by simp
next
  case (Cons i idx)
  from Cons.prems have "i < length its" by simp
  from update_entry_ok [OF Cons.prems(2) neighbours_entry_ok [OF assms(1) this]]
  have "list_all neighbours_ok (AList.update (its ! i) (neighbours sims its i) cache)" .
  with Cons.prems(1) show ?case by (simp add: Cons.IH)
qed

lemma similarity_cache_ok:
  assumes "is_set_order (set_order e)" and "cache_ok s"
  shows "list_all neighbours_ok (similarity_cache e s)"
proof -
  have d: "distinct (set_order e xs)" for xs
    using assms(1) by (simp add: is_set_order_def)
  show ?thesis
    using assms(2)
    by (simp add: similarity_cache_def Let_def cache_ok_def fold_entries_ok [OF d])
qed

lemma compute_item_similarities_ok:
  "is_set_order (set_order e) \<Longrightarrow> cache_ok s \<Longrightarrow> cache_ok (compute_item_similarities e s)"
  using similarity_cache_ok [of e s]
  by (simp add: cache_ok_def compute_item_similarities_def)

lemma maintenance_cache_ok:
  assumes "is_set_order (set_order e)" and "cache_ok s"
  shows "cache_ok (maintenance cfg e s)"
proof -
  have "item_similarities (maintenance cfg e s) =
          (if recompute_due (total_interactions s)
           then item_similarities (compute_item_similarities e s) else item_similarities s)"
    by (simp add: maintenance_def Let_def update_popular_items_frame cleanup_old_data_frame)
  with compute_item_similarities_ok [OF assms] assms(2) show ?thesis
    by (simp add: cache_ok_def)
qed

lemma record_feedback_cache:
  "item_similarities (snd (record_feedback cfg e s u a r c)) = item_similarities s"
  by (cases "db e = DbOk")
     (simp_all add: record_feedback_up record_feedback_down online_learning_def
        split: option.splits)

lemma record_interaction_cache_ok:
  assumes "is_set_order (set_order e)" and "cache_ok s"
  shows "cache_ok (snd (record_interaction cfg e s u a t r c))"
proof -
  have 1: "cache_ok (add_interaction e s u a w)" for w
    using assms(2) by (simp add: cache_ok_def add_interaction_frame)
  have 2: "cache_ok (snd (record_feedback cfg e (add_interaction e s u a w) u a n c))" for w n
    using 1 [of w] by (simp add: cache_ok_def record_feedback_cache)
  note 3 = maintenance_cache_ok [OF assms(1)]
  show ?thesis
  proof (cases r)
    case None
    then show ?thesis
      using assms(2) 3 [OF 1] by (simp add: record_interaction_def Let_def)
  next
    case (Some n)
    show ?thesis
      using assms(2) 1 2 [of "interaction_weight t (Some n)" n]
        3 [OF 2 [of "interaction_weight t (Some n)" n]] 3 [OF 1]
      by (auto simp: record_interaction_def Let_def Some split: prod.splits option.splits)
  qed
qed

lemma init_cache_ok: "cache_ok (init_recommender cfg e rows)"
  by (simp add: cache_ok_def init_recommender_def update_popular_items_frame)

lemma get_advanced_recommendations_cache:
  "item_similarities (snd (get_advanced_recommendations cfg sem now s u role level ind goal q k))
     = item_similarities s"
  by (simp add: get_advanced_recommendations_def touch_profile_def split: sum.splits)

text \<open>
  C6. Every neighbour list a recompute stores has at most 20 entries, does not hold its
  own item and is in descending order of similarity; the cache starts empty, a recompute
  replaces entries only by such lists, and \<open>record_interaction\<close> and
  \<open>get_advanced_recommendations\<close> change the cache in no other way, so the invariant holds
  for every item after every recompute. The items of a recompute come from a Python set,
  hence are distinct.
\<close>

theorem similarity_cache_invariant:
  assumes "is_set_order (set_order e)"
  shows "cache_ok (init_recommender cfg e rows)
       \<and> (cache_ok s \<longrightarrow> cache_ok (compute_item_similarities e s))
       \<and> (cache_ok s \<longrightarrow> cache_ok (snd (record_interaction cfg e s u a t r c)))
       \<and> (cache_ok s \<longrightarrow>
            cache_ok (snd (get_advanced_recommendations cfg sem now s u role level ind goal q k)))
       \<and> (\<forall>its i. distinct its \<and> i < length its \<longrightarrow>
            length (neighbours sims its i) \<le> 20
            \<and> its ! i \<notin> fst ` set (neighbours sims its i)
            \<and> sorted_wrt (\<lambda>x y. snd y \<le> snd x) (neighbours sims its i))"
proof (intro conjI impI allI)
  show "cache_ok (init_recommender cfg e rows)" by (rule init_cache_ok)
  show "cache_ok (compute_item_similarities e s)" if "cache_ok s"
    using assms that by (rule compute_item_similarities_ok)
  show "cache_ok (snd (record_interaction cfg e s u a t r c))" if "cache_ok s"
    using assms that by (rule record_interaction_cache_ok)
  show "cache_ok (snd (get_advanced_recommendations cfg sem now s u role level ind goal q k))"
    if "cache_ok s"
    using that by (simp add: cache_ok_def get_advanced_recommendations_cache)
  fix its :: "py_val list" and i
  assume h: "distinct its \<and> i < length its"
  then have "neighbours_ok (its ! i, neighbours sims its i)"
    by (simp add: neighbours_entry_ok)
  then show "length (neighbours sims its i) \<le> 20"
    "its ! i \<notin> fst ` set (neighbours sims its i)"
    "sorted_wrt (\<lambda>x y. snd y \<le> snd x) (neighbours sims its i)"
    by (simp_all add: neighbours_ok_def)
qed

lemma two_users_cache:
  "item_similarities (compute_item_similarities env_sims two_users) =
     [(PyInt 2, [(PyInt 1, 1 / 5), (PyInt 3, 1 / 10)]),
      (PyInt 3, [(PyInt 1, 3 / 10), (PyInt 2, 1 / 10)]),
      (PyInt 1, [(PyInt 3, 3 / 10), (PyInt 2, 1 / 5)])]"
  by (simp add: compute_item_similarities_def similarity_cache_def two_users_def fresh_state_eq
        env_sims_def env_ok_def neighbours_def sort_desc_def dict_get_def Let_def upt_rec)

lemma remdups_set_order: "is_set_order remdups"
  by (simp add: is_set_order_def)

theorem similarity_cache_invariant_witness:
  "is_set_order (set_order env_sims) \<and> cache_ok two_users
   \<and> item_similarities (compute_item_similarities env_sims two_users) =
       [(PyInt 2, [(PyInt 1, 1 / 5), (PyInt 3, 1 / 10)]),
        (PyInt 3, [(PyInt 1, 3 / 10), (PyInt 2, 1 / 10)]),
        (PyInt 1, [(PyInt 3, 3 / 10), (PyInt 2, 1 / 5)])]
   \<and> cache_ok (compute_item_similarities env_sims two_users)"
proof -
  have h: "is_set_order (set_order env_sims)"
    by (simp add: env_sims_def env_ok_def remdups_set_order)
  have c: "cache_ok two_users"
    by (simp add: cache_ok_def two_users_def fresh_state_eq)
  have "cache_ok two_users \<longrightarrow> cache_ok (compute_item_similarities env_sims two_users)"
    by (rule similarity_cache_invariant [OF h, of small_cfg "[]" two_users,
          THEN conjunct2, THEN conjunct1])
  with c have "cache_ok (compute_item_similarities env_sims two_users)" by simp
  with h c two_users_cache show ?thesis by simp
qed

end
